theory Spec2Isabelle
  imports Main "HOL-Library.Word" "HOL-Library.While_Combinator"
begin

unbundle bit_operations_syntax

section \<open>The MicoJoystick driver: data model\<close>

text \<open>
  The driver is C for a 32-bit ARM: \<open>unsigned int\<close> and \<open>int\<close> are 32-bit words
  (arithmetic wraps; a signed reading is \<^const>\<open>sint\<close>), \<open>unsigned char\<close> is an
  8-bit word.  An array \<open>unsigned int a[NUM_STICKS]\<close> is a function from the
  stick index; the code only ever indexes it with 0 and 1.
\<close>

type_synonym u32 = "32 word"
type_synonym u8 = "8 word"
type_synonym arr = "nat \<Rightarrow> u32"

definition NUM_STICKS :: nat where "NUM_STICKS = 2"
definition NUM_TEST_RUNS :: nat where "NUM_TEST_RUNS = 32"
definition MAX_GRANULARITY :: u32 where "MAX_GRANULARITY = 30"
definition MAX_AXIS_WAIT_TIME :: u32 where "MAX_AXIS_WAIT_TIME = 2000"
definition POLL_FREQUENCY :: u32 where "POLL_FREQUENCY = 7"
definition SCALER_FRAC_SHIFT :: nat where "SCALER_FRAC_SHIFT = 14"
definition UINT_MAX :: u32 where "UINT_MAX = - 1"

definition PC_JOY_A_X :: u32 where "PC_JOY_A_X = push_bit 0 1"
definition PC_JOY_A_Y :: u32 where "PC_JOY_A_Y = push_bit 1 1"
definition PC_JOY_B_X :: u32 where "PC_JOY_B_X = push_bit 2 1"
definition PC_JOY_B_Y :: u32 where "PC_JOY_B_Y = push_bit 3 1"
definition PC_JOY_A_B1 :: u32 where "PC_JOY_A_B1 = push_bit 4 1"
definition PC_JOY_A_B2 :: u32 where "PC_JOY_A_B2 = push_bit 5 1"
definition PC_JOY_B_B1 :: u32 where "PC_JOY_B_B1 = push_bit 6 1"
definition PC_JOY_B_B2 :: u32 where "PC_JOY_B_B2 = push_bit 7 1"

definition STICK_0 :: u32 where "STICK_0 = push_bit 0 1"
definition STICK_1 :: u32 where "STICK_1 = push_bit 1 1"

definition X_BIAS_MIN :: u32 where "X_BIAS_MIN = push_bit 0 1"
definition X_BIAS_MAX :: u32 where "X_BIAS_MAX = push_bit 1 1"
definition Y_BIAS_MIN :: u32 where "Y_BIAS_MIN = push_bit 2 1"
definition Y_BIAS_MAX :: u32 where "Y_BIAS_MAX = push_bit 3 1"

definition CALIB_NONE :: u32 where "CALIB_NONE = 0"
definition CALIB_TOP_RIGHT :: u32 where "CALIB_TOP_RIGHT = 1"
definition CALIB_BOTTOM_LEFT :: u32 where "CALIB_BOTTOM_LEFT = 2"

text \<open>
  The error blocks of \<open>errors.a\<close>, the module veneer's \<open>error_BAD_SWI\<close>, and an error
  block handed back by an operating-system call (\<open>_swix\<close>), known by its number only.
\<close>

datatype error =
    error_command_syntax
  | gameport_not_found
  | bad_joy_num
  | bad_reason
  | error_calib
  | error_BAD_SWI
  | os_error nat

text \<open>The file-scope variables of the driver.\<close>

record state =
  axes_mask :: u32
  calib_status :: u32
  x_axis :: arr
  y_axis :: arr
  x_min :: arr
  x_max :: arr
  y_min :: arr
  y_max :: arr
  x_ctr_deadz :: arr
  y_ctr_deadz :: arr
  x_ctr :: arr
  y_ctr :: arr
  x_end_deadz :: arr
  y_end_deadz :: arr
  x_smooth :: arr
  y_smooth :: arr
  x_ctr_low :: arr
  y_ctr_low :: arr
  x_ctr_high :: arr
  y_ctr_high :: arr
  x_low_scaler :: arr
  x_high_scaler :: arr
  y_low_scaler :: arr
  y_high_scaler :: arr
  polling_stick :: bool
  swi_in_last_min :: bool
  callback_pending :: bool
  callback_free :: bool
  max_wait :: u32
  tolerance :: u32
  smooth :: bool
  end_zones :: bool
  ctr_zones :: bool
  poll_freq :: u32

text \<open>
  The loops \<open>for(stick_num = (NUM_STICKS-1); stick_num >= 0; stick_num--)\<close> visit
  stick 1, then stick 0.
\<close>

definition stick_order :: "nat list" where
  "stick_order = [1, 0]"

section \<open>Smoothing\<close>

text \<open>
  \<open>smooth_value\<close>: all operands are \<open>unsigned int\<close>, so the bounds
  \<open>prev_value - stddev\<close> and \<open>prev_value + stddev\<close> wrap around, as do the weighted
  sums; the divisions are unsigned.
\<close>

definition smooth_value :: "u32 \<Rightarrow> u32 \<Rightarrow> u32 \<Rightarrow> u32" where
  "smooth_value prev_value new_value stddev =
    (if new_value \<ge> prev_value - stddev \<and> new_value \<le> prev_value + stddev
     then (prev_value * 3 + new_value) div 4
     else if new_value \<ge> prev_value - stddev * 2 \<and> new_value \<le> prev_value + stddev * 2
     then (prev_value + new_value) div 2
     else if new_value \<ge> prev_value - stddev * 4 \<and> new_value \<le> prev_value + stddev * 4
     then (new_value * 3 + prev_value) div 4
     else new_value)"

section \<open>Scaling coefficients\<close>

text \<open>
  The macro \<open>safedivide\<close> tests \<open>int div = divisor\<close> against zero and otherwise
  divides.  Its dividend is the \<open>int\<close> constant \<open>32768 << SCALER_FRAC_SHIFT\<close> and its
  divisor an \<open>unsigned int\<close> expression, so the division is the unsigned one.
\<close>

definition safedivide :: "u32 \<Rightarrow> u32 \<Rightarrow> u32" where
  "safedivide dividend divisor =
    (let dv = divisor in if dv \<noteq> 0 then dividend div divisor else 0)"

definition scaler_dividend :: u32 where
  "scaler_dividend = push_bit SCALER_FRAC_SHIFT 32768"

text \<open>The body of the loop of \<open>recalc_coefficients\<close> for one selected stick.\<close>

definition recalc_stick :: "nat \<Rightarrow> state \<Rightarrow> state" where
  "recalc_stick stick_num s =
    (let x_ctr_dz = (if ctr_zones s then x_ctr_deadz s stick_num else 0);
         y_ctr_dz = (if ctr_zones s then y_ctr_deadz s stick_num else 0);
         s1 = s\<lparr>x_ctr_low := (x_ctr_low s)(stick_num := x_ctr s stick_num - x_ctr_dz)\<rparr>;
         s2 = s1\<lparr>x_ctr_high := (x_ctr_high s1)(stick_num := x_ctr s1 stick_num + x_ctr_dz)\<rparr>;
         s3 = s2\<lparr>y_ctr_low := (y_ctr_low s2)(stick_num := y_ctr s2 stick_num - y_ctr_dz)\<rparr>;
         s4 = s3\<lparr>y_ctr_high := (y_ctr_high s3)(stick_num := y_ctr s3 stick_num + y_ctr_dz)\<rparr>;
         x_end_dz = (if end_zones s4 then x_end_deadz s4 stick_num else 0);
         y_end_dz = (if end_zones s4 then y_end_deadz s4 stick_num else 0);
         s5 = s4\<lparr>x_low_scaler := (x_low_scaler s4)(stick_num :=
                 safedivide scaler_dividend
                   (x_ctr_low s4 stick_num - (x_min s4 stick_num + x_end_dz)))\<rparr>;
         s6 = s5\<lparr>x_high_scaler := (x_high_scaler s5)(stick_num :=
                 safedivide scaler_dividend
                   ((x_max s5 stick_num - x_end_dz) - x_ctr_high s5 stick_num))\<rparr>;
         s7 = s6\<lparr>y_low_scaler := (y_low_scaler s6)(stick_num :=
                 safedivide scaler_dividend
                   (y_ctr_low s6 stick_num - (y_min s6 stick_num + y_end_dz)))\<rparr>;
         s8 = s7\<lparr>y_high_scaler := (y_high_scaler s7)(stick_num :=
                 safedivide scaler_dividend
                   ((y_max s7 stick_num - y_end_dz) - y_ctr_high s7 stick_num))\<rparr>
     in s8)"

definition stick_selected :: "u32 \<Rightarrow> nat \<Rightarrow> bool" where
  "stick_selected sticks stick_num \<longleftrightarrow> sticks AND push_bit stick_num 1 \<noteq> 0"

definition recalc_coefficients :: "u32 \<Rightarrow> state \<Rightarrow> state" where
  "recalc_coefficients sticks s =
    fold (\<lambda>stick_num s. if stick_selected sticks stick_num
                          then recalc_stick stick_num s else s)
      stick_order s"

section \<open>Conversion to the 8-bit and 16-bit ranges\<close>

text \<open>
  The conversions are written inline in the \<open>Joystick_Read\<close> case of
  \<open>MicoJoy_swihandler\<close>.  Each takes the stick's centre limits, its two scalers and
  the cached axis timing, all \<open>unsigned int\<close>: the product wraps at 32 bits, the shift
  is logical, and the result is stored in a \<open>signed int\<close>, which the range check then
  reads as a signed number.
\<close>

definition clamp8 :: "u32 \<Rightarrow> u32" where
  "clamp8 x = (if sint x < - 127 then - 127 else if sint x > 127 then 127 else x)"

definition clamp16 :: "u32 \<Rightarrow> u32" where
  "clamp16 x = (if sint x < 0 then 0 else if sint x > 0xffff then 0xffff else x)"

definition read8_x :: "u32 \<Rightarrow> u32 \<Rightarrow> u32 \<Rightarrow> u32 \<Rightarrow> u32 \<Rightarrow> u32" where
  "read8_x ctr_low ctr_high low_scaler high_scaler axis =
    clamp8
      (if axis > ctr_low then
         (if axis < ctr_high then 0
          else drop_bit (SCALER_FRAC_SHIFT + 8) (high_scaler * (axis - ctr_high)))
       else - drop_bit (SCALER_FRAC_SHIFT + 8) (low_scaler * (ctr_low - axis)))"

definition read8_y :: "u32 \<Rightarrow> u32 \<Rightarrow> u32 \<Rightarrow> u32 \<Rightarrow> u32 \<Rightarrow> u32" where
  "read8_y ctr_low ctr_high low_scaler high_scaler axis =
    clamp8
      (if axis > ctr_low then
         (if axis < ctr_high then 0
          else - drop_bit (SCALER_FRAC_SHIFT + 8) (high_scaler * (axis - ctr_high)))
       else drop_bit (SCALER_FRAC_SHIFT + 8) (low_scaler * (ctr_low - axis)))"

definition read16_x :: "u32 \<Rightarrow> u32 \<Rightarrow> u32 \<Rightarrow> u32 \<Rightarrow> u32 \<Rightarrow> u32" where
  "read16_x ctr_low ctr_high low_scaler high_scaler axis =
    clamp16
      (if axis > ctr_low then
         (if axis < ctr_high then 0x7fff
          else 0x7fff + drop_bit SCALER_FRAC_SHIFT (high_scaler * (axis - ctr_high)))
       else 0x7fff - drop_bit SCALER_FRAC_SHIFT (low_scaler * (ctr_low - axis)))"

definition read16_y :: "u32 \<Rightarrow> u32 \<Rightarrow> u32 \<Rightarrow> u32 \<Rightarrow> u32 \<Rightarrow> u32" where
  "read16_y ctr_low ctr_high low_scaler high_scaler axis =
    clamp16
      (if axis > ctr_low then
         (if axis < ctr_high then 0x7fff
          else 0x7fff - drop_bit SCALER_FRAC_SHIFT (high_scaler * (axis - ctr_high)))
       else 0x7fff + drop_bit SCALER_FRAC_SHIFT (low_scaler * (ctr_low - axis)))"

section \<open>The hardware and the operating system\<close>

text \<open>
  What the driver reads from outside is given by the environment, in the order the
  driver asks for it: the bytes that successive reads of the game port return, the low
  and high count bytes of successive latches of IOC timer 0, the results of
  successive calls of \<open>OS_ReadMonotonicTime\<close> (the error, and the content of the output
  variable afterwards), and the results of the other \<open>_swix\<close> calls
  (\<open>OS_CallEvery\<close>, \<open>OS_RemoveTickerEvent\<close>, \<open>OS_AddCallBack\<close>).  An error of the
  operating system is given by its number; no number is no error.  Each source has a
  position that a read advances.  The driver's writes to the port and to the timer's
  latch register act on the hardware only: they show in what later reads return.
\<close>

record env =
  port_in :: "nat \<Rightarrow> u8"
  port_pos :: nat
  timer_in :: "nat \<Rightarrow> u8 \<times> u8"
  timer_pos :: nat
  clock_in :: "nat \<Rightarrow> nat option \<times> u32"
  clock_pos :: nat
  swi_in :: "nat \<Rightarrow> nat option"
  swi_pos :: nat

definition read_port :: "env \<Rightarrow> u8 \<times> env" where
  "read_port e = (port_in e (port_pos e), e\<lparr>port_pos := Suc (port_pos e)\<rparr>)"

text \<open>\<open>ioc->timer_0.low[0] + (ioc->timer_0.high[0] << 8)\<close> after a latch command.\<close>

definition read_timer :: "env \<Rightarrow> u32 \<times> env" where
  "read_timer e =
    (case timer_in e (timer_pos e) of
       (low, high) \<Rightarrow> (ucast low + push_bit 8 (ucast high),
                        e\<lparr>timer_pos := Suc (timer_pos e)\<rparr>))"

definition read_clock :: "env \<Rightarrow> (error option \<times> u32) \<times> env" where
  "read_clock e =
    (case clock_in e (clock_pos e) of
       (err, t) \<Rightarrow> ((map_option os_error err, t), e\<lparr>clock_pos := Suc (clock_pos e)\<rparr>))"

definition swix :: "env \<Rightarrow> error option \<times> env" where
  "swix e = (map_option os_error (swi_in e (swi_pos e)), e\<lparr>swi_pos := Suc (swi_pos e)\<rparr>)"

text \<open>
  The delay \<open>do { e = _swix(OS_ReadMonotonicTime, _OUT(0), &newtime); }
  while(newtime == lasttime && e == NULL);\<close> waits for the centisecond clock to move.
  It may never end; the result is the new \<open>lasttime\<close>.
\<close>

definition delay_cond :: "u32 \<Rightarrow> (error option \<times> u32) \<times> env \<Rightarrow> bool" where
  "delay_cond lasttime r \<longleftrightarrow> snd (fst r) = lasttime \<and> fst (fst r) = None"

definition delay :: "u32 \<Rightarrow> env \<Rightarrow> (u32 \<times> env) option" where
  "delay lasttime e =
    (case while_option (delay_cond lasttime) (\<lambda>r. read_clock (snd r)) (read_clock e) of
       None \<Rightarrow> None
     | Some r \<Rightarrow> Some (snd (fst r), snd r))"

section \<open>Reading the axis timings\<close>

text \<open>The local variables of \<open>read_joystick\<close>, with the environment read so far.\<close>

record rj_loop =
  rj_mask :: u32
  rj_wait :: u32
  rj_prev_time :: u32
  rj_start_time :: u32
  rj_new_x :: arr
  rj_new_y :: arr
  rj_sticks_lost :: u32
  rj_env :: env

definition rj_cond :: "state \<Rightarrow> rj_loop \<Rightarrow> bool" where
  "rj_cond s lp \<longleftrightarrow> rj_mask lp \<noteq> 0 \<and> rj_wait lp < max_wait s"

text \<open>
  One of the four blocks \<open>if (joy & PC_JOY_A_X) { ... }\<close> of the loop: \<open>axis_bit\<close> is the
  axis bit, \<open>is_x\<close> and \<open>stick_num\<close> say which entry of \<open>new_x\<close> or \<open>new_y\<close> it owns.
\<close>

definition rj_axis :: "state \<Rightarrow> u32 \<Rightarrow> u32 \<Rightarrow> u32 \<Rightarrow> bool \<Rightarrow> nat \<Rightarrow> rj_loop \<Rightarrow> rj_loop" where
  "rj_axis s joy interval axis_bit is_x stick_num lp =
    (if joy AND axis_bit \<noteq> 0 then
       (let lp1 =
          (if interval \<le> tolerance s then
             (if is_x then lp\<lparr>rj_new_x := (rj_new_x lp)(stick_num := rj_wait lp)\<rparr>
              else lp\<lparr>rj_new_y := (rj_new_y lp)(stick_num := rj_wait lp)\<rparr>)
           else lp\<lparr>rj_sticks_lost := rj_sticks_lost lp OR push_bit stick_num 1\<rparr>)
        in lp1\<lparr>rj_mask := rj_mask lp1 AND NOT axis_bit\<rparr>)
     else lp)"

text \<open>
  The quantities one pass of the loop computes from the hardware: the inverted status
  byte masked by the axes still awaited, and the time since the previous sample.
\<close>

definition rj_sample :: "rj_loop \<Rightarrow> u32 \<times> u32 \<times> rj_loop" where
  "rj_sample lp =
    (case read_port (rj_env lp) of (b, e1) \<Rightarrow>
     case read_timer e1 of (new_time, e2) \<Rightarrow>
       (let joy0 = NOT (ucast b :: u32);
            wrapped = (new_time > rj_start_time lp);
            start_time = (if wrapped then rj_start_time lp + 20000 else rj_start_time lp);
            prev_time = (if wrapped then rj_prev_time lp + 20000 else rj_prev_time lp);
            wait = start_time - new_time;
            interval = prev_time - new_time;
            joy = joy0 AND rj_mask lp
        in (joy, interval,
            lp\<lparr>rj_start_time := start_time, rj_wait := wait, rj_prev_time := new_time,
               rj_env := e2\<rparr>)))"

definition rj_step :: "state \<Rightarrow> rj_loop \<Rightarrow> rj_loop" where
  "rj_step s lp =
    (case rj_sample lp of (joy, interval, lp1) \<Rightarrow>
       rj_axis s joy interval PC_JOY_B_Y False 1
         (rj_axis s joy interval PC_JOY_B_X True 1
           (rj_axis s joy interval PC_JOY_A_Y False 0
             (rj_axis s joy interval PC_JOY_A_X True 0 lp1))))"

text \<open>
  The loop after the timing: an entry of \<open>new_x\<close> or \<open>new_y\<close> other than \<open>UINT_MAX\<close>
  replaces the cached value, smoothed when smoothing is on for the axis.
\<close>

definition rj_store_stick :: "arr \<Rightarrow> arr \<Rightarrow> nat \<Rightarrow> state \<Rightarrow> state" where
  "rj_store_stick new_x new_y stick_num s =
    (let s1 =
       (if new_x stick_num \<noteq> UINT_MAX then
          (if smooth s \<and> x_smooth s stick_num > 0 then
             s\<lparr>x_axis := (x_axis s)(stick_num :=
                  smooth_value (x_axis s stick_num) (new_x stick_num) (x_smooth s stick_num))\<rparr>
           else s\<lparr>x_axis := (x_axis s)(stick_num := new_x stick_num)\<rparr>)
        else s)
     in
       (if new_y stick_num \<noteq> UINT_MAX then
          (if smooth s1 \<and> y_smooth s1 stick_num > 0 then
             s1\<lparr>y_axis := (y_axis s1)(stick_num :=
                  smooth_value (y_axis s1 stick_num) (new_y stick_num) (y_smooth s1 stick_num))\<rparr>
           else s1\<lparr>y_axis := (y_axis s1)(stick_num := new_y stick_num)\<rparr>)
        else s1))"

definition rj_init :: "u32 \<Rightarrow> env \<Rightarrow> rj_loop" where
  "rj_init mask_arg e =
    (case read_timer e of (start_time, e1) \<Rightarrow>
       \<lparr>rj_mask = mask_arg, rj_wait = 0, rj_prev_time = start_time, rj_start_time = start_time,
        rj_new_x = (\<lambda>_. UINT_MAX), rj_new_y = (\<lambda>_. UINT_MAX), rj_sticks_lost = 0,
        rj_env = e1\<rparr>)"

text \<open>
  \<open>read_joystick\<close> (its parameter \<open>mask\<close> is \<open>mask_arg\<close> here) returns the axes
  that timed out; the model also returns what the
  call stores through \<open>lost\<close> when that pointer is not null.  The timing loop stops
  only when the hardware lets it: a run that never stops is \<open>None\<close>.
\<close>

definition read_joystick :: "u32 \<Rightarrow> state \<Rightarrow> env \<Rightarrow> (u32 \<times> u32 \<times> state \<times> env) option" where
  "read_joystick mask_arg s e =
    (case while_option (rj_cond s) (rj_step s) (rj_init mask_arg e) of
       None \<Rightarrow> None
     | Some lp \<Rightarrow>
         Some (rj_mask lp, rj_sticks_lost lp,
               fold (rj_store_stick (rj_new_x lp) (rj_new_y lp)) stick_order s,
               rj_env lp))"

text \<open>
  \<open>doread_handler\<close>, the transient callback that performs the periodic read of the
  axes in \<open>axes_mask\<close>.
\<close>

definition doread_handler :: "state \<Rightarrow> env \<Rightarrow> (state \<times> env) option" where
  "doread_handler s e =
    (let s1 = s\<lparr>callback_pending := False\<rparr> in
     if polling_stick s1 then
       (case read_joystick (axes_mask s1) s1 e of
          None \<Rightarrow> None
        | Some (m, lost, s2, e2) \<Rightarrow> Some (s2\<lparr>callback_free := True\<rparr>, e2))
     else Some (s1\<lparr>callback_free := True\<rparr>, e))"

section \<open>Averaging the stick position\<close>

text \<open>The macro \<open>absdiff\<close> on unsigned operands.\<close>

definition absdiff :: "u32 \<Rightarrow> u32 \<Rightarrow> u32" where
  "absdiff x y = (if x > y then x - y else y - x)"

text \<open>
  The local arrays of \<open>get_av_stick_pos\<close>, the set \<open>sticks_within_range\<close> of the
  current pass and \<open>lasttime\<close>.  The C leaves the entries of sticks that are not
  selected, and \<open>last_y\<close>, uninitialised and never reads them before writing them;
  here they start at 0.
\<close>

record av_vars =
  av_x_tot :: arr
  av_y_tot :: arr
  av_x_jit_min :: arr
  av_x_jit_max :: arr
  av_y_jit_min :: arr
  av_y_jit_max :: arr
  av_last_x :: arr
  av_last_y :: arr
  av_within :: u32
  av_lasttime :: u32

text \<open>\<open>update_min_max\<close>, returning the two arrays it writes.\<close>

definition update_min_max :: "arr \<Rightarrow> arr \<Rightarrow> arr \<Rightarrow> nat \<Rightarrow> arr \<times> arr" where
  "update_min_max axis jit_min jit_max stick_num =
    (let jit_min1 = (if axis stick_num < jit_min stick_num
                     then jit_min(stick_num := axis stick_num) else jit_min);
         jit_max1 = (if axis stick_num > jit_max stick_num
                     then jit_max(stick_num := axis stick_num) else jit_max)
     in (jit_min1, jit_max1))"

definition av_init_stick :: "u32 \<Rightarrow> nat \<Rightarrow> av_vars \<Rightarrow> av_vars" where
  "av_init_stick sticks stick_num v =
    (if stick_selected sticks stick_num then
       v\<lparr>av_x_tot := (av_x_tot v)(stick_num := 0),
         av_y_tot := (av_y_tot v)(stick_num := 0),
         av_x_jit_min := (av_x_jit_min v)(stick_num := MAX_AXIS_WAIT_TIME),
         av_y_jit_min := (av_y_jit_min v)(stick_num := MAX_AXIS_WAIT_TIME),
         av_x_jit_max := (av_x_jit_max v)(stick_num := 0),
         av_y_jit_max := (av_y_jit_max v)(stick_num := 0),
         av_last_x := (av_last_x v)(stick_num := UINT_MAX)\<rparr>
     else v)"

text \<open>
  The body of the loop over the sticks inside the sampling loop: once the sticks
  have settled (\<open>go_go_go = 0\<close>) it accumulates the sum and the extremes, before that
  it compares the reading with the previous one.
\<close>

definition av_stick :: "u32 \<Rightarrow> u32 \<Rightarrow> state \<Rightarrow> nat \<Rightarrow> nat \<Rightarrow> av_vars \<Rightarrow> av_vars" where
  "av_stick sticks lost s go_go_go stick_num v =
    (if stick_selected sticks stick_num then
       (if go_go_go = 0 then
          (let v1 = v\<lparr>av_x_tot := (av_x_tot v)(stick_num :=
                        av_x_tot v stick_num + x_axis s stick_num)\<rparr>;
               v2 = v1\<lparr>av_y_tot := (av_y_tot v1)(stick_num :=
                        av_y_tot v1 stick_num + y_axis s stick_num)\<rparr>;
               xm = update_min_max (x_axis s) (av_x_jit_min v2) (av_x_jit_max v2) stick_num;
               v3 = v2\<lparr>av_x_jit_min := fst xm, av_x_jit_max := snd xm\<rparr>;
               ym = update_min_max (y_axis s) (av_y_jit_min v3) (av_y_jit_max v3) stick_num
           in v3\<lparr>av_y_jit_min := fst ym, av_y_jit_max := snd ym\<rparr>)
        else
          (let v1 =
             (if av_last_x v stick_num \<noteq> UINT_MAX \<and> \<not> (lost AND push_bit stick_num 1 \<noteq> 0)
              then
                (if absdiff (av_last_x v stick_num) (x_axis s stick_num)
                      \<le> x_smooth s stick_num * 2
                 then
                   (if absdiff (av_last_y v stick_num) (y_axis s stick_num)
                         \<le> y_smooth s stick_num * 2
                    then v\<lparr>av_within := av_within v OR push_bit stick_num 1\<rparr>
                    else v)
                 else v)
              else v)
           in v1\<lparr>av_last_x := (av_last_x v1)(stick_num := x_axis s stick_num),
                 av_last_y := (av_last_y v1)(stick_num := y_axis s stick_num)\<rparr>))
     else v)"

text \<open>
  The sampling loop \<open>while(test >= 0)\<close>.  \<open>go_go_go\<close> is an \<open>int\<close> that starts at 8 and
  is only decremented while positive, so a natural number holds it.  Every pass reads
  the joystick and then waits for the clock.
\<close>

function av_loop ::
  "u32 \<Rightarrow> u32 \<Rightarrow> int \<Rightarrow> nat \<Rightarrow> av_vars \<Rightarrow> state \<Rightarrow> env \<Rightarrow> (av_vars \<times> state \<times> env) option"
where
  "av_loop sticks read_axes test go_go_go v s e =
    (if test \<ge> 0 then
       (case read_joystick read_axes s e of
          None \<Rightarrow> None
        | Some (m, lost, s1, e1) \<Rightarrow>
            (let v1 = fold (av_stick sticks lost s1 go_go_go) stick_order (v\<lparr>av_within := 0\<rparr>);
                 go1 = (if go_go_go > 0
                        then (if av_within v1 = sticks then 0 else go_go_go - 1)
                        else go_go_go);
                 test1 = (if go_go_go > 0 then test
                          else if go_go_go = 0 then test - 1 else test)
             in (case delay (av_lasttime v1) e1 of
                   None \<Rightarrow> None
                 | Some (newtime, e2) \<Rightarrow>
                     av_loop sticks read_axes test1 go1 (v1\<lparr>av_lasttime := newtime\<rparr>) s1 e2)))
     else Some (v, s, e))"
  by pat_completeness auto
termination
  by (relation "measure (\<lambda>(sticks, read_axes, test, go_go_go, v, s, e).
                   nat (test + 1) + go_go_go)") auto

text \<open>
  The four arrays \<open>get_av_stick_pos\<close> writes through its pointer parameters.  The
  callers pass file-scope arrays (or locals) that the function and \<open>read_joystick\<close>
  never touch under their own names, so the model takes the arrays' contents and
  returns the updated contents, which the caller stores.
\<close>

record av_out =
  av_x_array :: arr
  av_y_array :: arr
  av_x_jitdist :: arr
  av_y_jitdist :: arr

text \<open>
  The last loop: the average, and the distance from it of the lowest (\<open>min\<close>) or
  highest (\<open>max\<close>) reading; \<open>min\<close> and \<open>max\<close> are \<open>int\<close> and compared as such.
\<close>

definition av_finish_stick :: "u32 \<Rightarrow> u32 \<Rightarrow> av_vars \<Rightarrow> nat \<Rightarrow> av_out \<Rightarrow> av_out" where
  "av_finish_stick sticks bias v stick_num out =
    (if stick_selected sticks stick_num then
       (let o1 = out\<lparr>av_x_array := (av_x_array out)(stick_num :=
                     av_x_tot v stick_num div of_nat NUM_TEST_RUNS)\<rparr>;
            o2 = o1\<lparr>av_y_array := (av_y_array o1)(stick_num :=
                     av_y_tot v stick_num div of_nat NUM_TEST_RUNS)\<rparr>;
            xmin = av_x_array o2 stick_num - av_x_jit_min v stick_num;
            xmax = av_x_jit_max v stick_num - av_x_array o2 stick_num;
            o3 = (if (sint xmin > sint xmax \<or> bias AND X_BIAS_MIN \<noteq> 0)
                      \<and> \<not> (bias AND X_BIAS_MAX \<noteq> 0)
                  then o2\<lparr>av_x_jitdist := (av_x_jitdist o2)(stick_num := xmin)\<rparr>
                  else o2\<lparr>av_x_jitdist := (av_x_jitdist o2)(stick_num := xmax)\<rparr>);
            ymin = av_y_array o3 stick_num - av_y_jit_min v stick_num;
            ymax = av_y_jit_max v stick_num - av_y_array o3 stick_num
        in (if (sint ymin > sint ymax \<or> bias AND Y_BIAS_MIN \<noteq> 0)
                \<and> \<not> (bias AND Y_BIAS_MAX \<noteq> 0)
            then o3\<lparr>av_y_jitdist := (av_y_jitdist o3)(stick_num := ymin)\<rparr>
            else o3\<lparr>av_y_jitdist := (av_y_jitdist o3)(stick_num := ymax)\<rparr>))
     else out)"

definition av_read_axes :: "u32 \<Rightarrow> state \<Rightarrow> u32" where
  "av_read_axes sticks s =
    (let r0 = (if sticks AND STICK_0 \<noteq> 0 then PC_JOY_A_X OR PC_JOY_A_Y else 0);
         r1 = (if sticks AND STICK_1 \<noteq> 0 then r0 OR (PC_JOY_B_X OR PC_JOY_B_Y) else r0)
     in r1 AND axes_mask s)"

definition get_av_stick_pos ::
  "u32 \<Rightarrow> av_out \<Rightarrow> u32 \<Rightarrow> state \<Rightarrow> env \<Rightarrow> (av_out \<times> state \<times> env) option"
where
  "get_av_stick_pos sticks out bias s e =
    (let v0 = fold (av_init_stick sticks) stick_order
                \<lparr>av_x_tot = (\<lambda>_. 0), av_y_tot = (\<lambda>_. 0),
                 av_x_jit_min = (\<lambda>_. 0), av_x_jit_max = (\<lambda>_. 0),
                 av_y_jit_min = (\<lambda>_. 0), av_y_jit_max = (\<lambda>_. 0),
                 av_last_x = (\<lambda>_. 0), av_last_y = (\<lambda>_. 0),
                 av_within = 0, av_lasttime = 0\<rparr>;
         read_axes = av_read_axes sticks s
     in case read_clock e of (c, e1) \<Rightarrow>
        (case av_loop sticks read_axes (int NUM_TEST_RUNS - 1) 8
                (v0\<lparr>av_lasttime := snd c\<rparr>) s e1 of
           None \<Rightarrow> None
         | Some (v, s1, e2) \<Rightarrow>
             Some (fold (av_finish_stick sticks bias v) stick_order out, s1, e2)))"

section \<open>The SWI handler\<close>

text \<open>
  The SWI number relative to the chunk base, in the order of the module's SWI table:
  \<open>Joystick_Read\<close>, \<open>Joystick_CalibrateTopRight\<close>, \<open>Joystick_CalibrateBottomLeft\<close>.
  The register block \<open>r->r[]\<close> is a function of the register number.
\<close>

definition SWI_Read :: u32 where "SWI_Read = 0"
definition SWI_CalibrateTopRight :: u32 where "SWI_CalibrateTopRight = 1"
definition SWI_CalibrateBottomLeft :: u32 where "SWI_CalibrateBottomLeft = 2"

type_synonym regs = "nat \<Rightarrow> u32"

text \<open>
  The fire buttons of a stick, from the status byte: a clear bit is a pressed button.
  \<open>shift\<close> is 16 in the 8-bit reply and 0 in the 16-bit reply.
\<close>

definition fire_buttons :: "u8 \<Rightarrow> u8 \<Rightarrow> nat \<Rightarrow> u32" where
  "fire_buttons joy stick_num shift =
    (let j = (ucast joy :: u32);
         b1 = (if stick_num = 0 then PC_JOY_A_B1 else PC_JOY_B_B1);
         b2 = (if stick_num = 0 then PC_JOY_A_B2 else PC_JOY_B_B2);
         buttons0 = (if \<not> (j AND b1 \<noteq> 0) then push_bit shift 1 else 0)
     in if \<not> (j AND b2 \<noteq> 0) then buttons0 OR push_bit (shift + 1) 1 else buttons0)"

text \<open>The signed values \<open>x\<close> and \<open>y\<close> that the two reason codes compute for a stick.\<close>

definition x8 :: "state \<Rightarrow> nat \<Rightarrow> u32" where
  "x8 s n = read8_x (x_ctr_low s n) (x_ctr_high s n) (x_low_scaler s n) (x_high_scaler s n)
              (x_axis s n)"

definition y8 :: "state \<Rightarrow> nat \<Rightarrow> u32" where
  "y8 s n = read8_y (y_ctr_low s n) (y_ctr_high s n) (y_low_scaler s n) (y_high_scaler s n)
              (y_axis s n)"

definition x16 :: "state \<Rightarrow> nat \<Rightarrow> u32" where
  "x16 s n = read16_x (x_ctr_low s n) (x_ctr_high s n) (x_low_scaler s n) (x_high_scaler s n)
               (x_axis s n)"

definition y16 :: "state \<Rightarrow> nat \<Rightarrow> u32" where
  "y16 s n = read16_y (y_ctr_low s n) (y_ctr_high s n) (y_low_scaler s n) (y_high_scaler s n)
               (y_axis s n)"

text \<open>The \<open>switch(reason_code)\<close> of \<open>Joystick_Read\<close>, from the cached timings.\<close>

definition read_reply :: "regs \<Rightarrow> state \<Rightarrow> env \<Rightarrow> error option \<times> regs \<times> state \<times> env" where
  "read_reply r s e =
    (let stick_num = (ucast (r 0 AND 0xff) :: u8);
         reason_code = (ucast (drop_bit 8 (r 0 AND 0xff00)) :: u8)
     in
       if reason_code = 0 then
         (if unat stick_num < NUM_STICKS then
            (let x = x8 s (unat stick_num);
                 y = y8 s (unat stick_num);
                 r1 = r(0 := (y AND 0xff) OR push_bit 8 (x AND 0xff))
             in case read_port e of (joy, e1) \<Rightarrow>
                  (None, r1(0 := r1 0 OR fire_buttons joy stick_num 16), s, e1))
          else (None, r(0 := 0), s, e))
       else if reason_code = 1 then
         (if unat stick_num < NUM_STICKS then
            (let x = x16 s (unat stick_num);
                 y = y16 s (unat stick_num);
                 r1 = r(0 := (y AND 0xffff) OR push_bit 16 x)
             in case read_port e of (joy, e1) \<Rightarrow>
                  (None, r1(1 := fire_buttons joy stick_num 0), s, e1))
          else (None, r(0 := 0x7fff7fff, 1 := 0), s, e))
       else (Some bad_reason, r, s, e))"

definition reseed_stick :: "nat \<Rightarrow> state \<Rightarrow> state" where
  "reseed_stick stick_num s =
    (let xc = x_ctr s stick_num; yc = y_ctr s stick_num;
         s1 = s\<lparr>x_axis := (x_axis s)(stick_num := xc)\<rparr>
     in s1\<lparr>y_axis := (y_axis s1)(stick_num := yc)\<rparr>)"

text \<open>The case \<open>Joystick_Read\<close>.\<close>

definition swi_read :: "regs \<Rightarrow> state \<Rightarrow> env \<Rightarrow> error option \<times> regs \<times> state \<times> env" where
  "swi_read r s e =
    (if calib_status s \<noteq> CALIB_NONE then (Some error_calib, r, s, e)
     else
       (let s1 = s\<lparr>swi_in_last_min := True\<rparr> in
        if \<not> polling_stick s1 then
          (case swix e of (err, e1) \<Rightarrow>
             (case err of
                Some x \<Rightarrow> (Some x, r, s1, e1)
              | None \<Rightarrow>
                  read_reply r (fold reseed_stick stick_order (s1\<lparr>polling_stick := True\<rparr>)) e1))
        else read_reply r s1 e))"

text \<open>
  On completing a calibration, an end dead zone grows to the jitter distance just
  measured when that is the larger (an unsigned comparison).
\<close>

definition widen_end_deadz :: "arr \<Rightarrow> arr \<Rightarrow> nat \<Rightarrow> state \<Rightarrow> state" where
  "widen_end_deadz x_jitdist y_jitdist stick_num s =
    (let s1 = (if x_jitdist stick_num > x_end_deadz s stick_num
               then s\<lparr>x_end_deadz := (x_end_deadz s)(stick_num := x_jitdist stick_num)\<rparr>
               else s)
     in (if y_jitdist stick_num > y_end_deadz s1 stick_num
         then s1\<lparr>y_end_deadz := (y_end_deadz s1)(stick_num := y_jitdist stick_num)\<rparr>
         else s1))"

text \<open>
  The case \<open>Joystick_CalibrateTopRight\<close>.  In the completing branch the jitter
  distances go to local arrays, which \<open>get_av_stick_pos\<close> fills for both sticks.
\<close>

definition swi_calibrate_top_right :: "state \<Rightarrow> env \<Rightarrow> (state \<times> env) option" where
  "swi_calibrate_top_right s e =
    (let s1 = s\<lparr>calib_status := calib_status s OR CALIB_TOP_RIGHT\<rparr> in
     if calib_status s1 = (CALIB_TOP_RIGHT OR CALIB_BOTTOM_LEFT) then
       (case get_av_stick_pos (STICK_0 OR STICK_1)
               \<lparr>av_x_array = x_max s1, av_y_array = y_min s1,
                av_x_jitdist = (\<lambda>_. 0), av_y_jitdist = (\<lambda>_. 0)\<rparr>
               (X_BIAS_MIN OR Y_BIAS_MAX) s1 e of
          None \<Rightarrow> None
        | Some (out, s2, e2) \<Rightarrow>
            (let s3 = s2\<lparr>x_max := av_x_array out, y_min := av_y_array out\<rparr>;
                 s4 = fold (widen_end_deadz (av_x_jitdist out) (av_y_jitdist out))
                        stick_order s3;
                 s5 = recalc_coefficients (STICK_0 OR STICK_1) s4
             in Some (s5\<lparr>calib_status := CALIB_NONE\<rparr>, e2)))
     else
       (case get_av_stick_pos (STICK_0 OR STICK_1)
               \<lparr>av_x_array = x_max s1, av_y_array = y_min s1,
                av_x_jitdist = x_end_deadz s1, av_y_jitdist = y_end_deadz s1\<rparr>
               (X_BIAS_MIN OR Y_BIAS_MAX) s1 e of
          None \<Rightarrow> None
        | Some (out, s2, e2) \<Rightarrow>
            Some (s2\<lparr>x_max := av_x_array out, y_min := av_y_array out,
                     x_end_deadz := av_x_jitdist out, y_end_deadz := av_y_jitdist out\<rparr>, e2)))"

text \<open>The case \<open>Joystick_CalibrateBottomLeft\<close>.\<close>

definition swi_calibrate_bottom_left :: "state \<Rightarrow> env \<Rightarrow> (state \<times> env) option" where
  "swi_calibrate_bottom_left s e =
    (let s1 = s\<lparr>calib_status := calib_status s OR CALIB_BOTTOM_LEFT\<rparr> in
     if calib_status s1 = (CALIB_TOP_RIGHT OR CALIB_BOTTOM_LEFT) then
       (case get_av_stick_pos (STICK_0 OR STICK_1)
               \<lparr>av_x_array = x_min s1, av_y_array = y_max s1,
                av_x_jitdist = (\<lambda>_. 0), av_y_jitdist = (\<lambda>_. 0)\<rparr>
               (X_BIAS_MAX OR Y_BIAS_MIN) s1 e of
          None \<Rightarrow> None
        | Some (out, s2, e2) \<Rightarrow>
            (let s3 = s2\<lparr>x_min := av_x_array out, y_max := av_y_array out\<rparr>;
                 s4 = fold (widen_end_deadz (av_x_jitdist out) (av_y_jitdist out))
                        stick_order s3;
                 s5 = recalc_coefficients (STICK_0 OR STICK_1) s4
             in Some (s5\<lparr>calib_status := CALIB_NONE\<rparr>, e2)))
     else
       (case get_av_stick_pos (STICK_0 OR STICK_1)
               \<lparr>av_x_array = x_min s1, av_y_array = y_max s1,
                av_x_jitdist = x_end_deadz s1, av_y_jitdist = y_end_deadz s1\<rparr>
               (X_BIAS_MAX OR Y_BIAS_MIN) s1 e of
          None \<Rightarrow> None
        | Some (out, s2, e2) \<Rightarrow>
            Some (s2\<lparr>x_min := av_x_array out, y_max := av_y_array out,
                     x_end_deadz := av_x_jitdist out, y_end_deadz := av_y_jitdist out\<rparr>, e2)))"

text \<open>
  Before the \<open>switch\<close>, a calibration SWI that starts a calibration while the stick
  is being polled removes the ticker event; polling counts as stopped only if the
  removal succeeded.
\<close>

definition stop_polling_for_calibration :: "u32 \<Rightarrow> state \<Rightarrow> env \<Rightarrow> state \<times> env" where
  "stop_polling_for_calibration swi_no s e =
    (if (swi_no = SWI_CalibrateTopRight \<or> swi_no = SWI_CalibrateBottomLeft)
        \<and> calib_status s = CALIB_NONE \<and> polling_stick s
     then (case swix e of (err, e1) \<Rightarrow>
             (if err = None then (s\<lparr>polling_stick := False\<rparr>, e1) else (s, e1)))
     else (s, e))"

text \<open>
  \<open>MicoJoy_swihandler\<close>: the error returned (\<open>None\<close> is the C's \<open>NULL\<close>), the register
  block, the driver's variables and the environment afterwards.  The whole result is
  \<open>None\<close> when a calibration never comes back from the hardware.
\<close>

definition MicoJoy_swihandler ::
  "u32 \<Rightarrow> regs \<Rightarrow> state \<Rightarrow> env \<Rightarrow> (error option \<times> regs \<times> state \<times> env) option"
where
  "MicoJoy_swihandler swi_no r s e =
    (case stop_polling_for_calibration swi_no s e of (s0, e0) \<Rightarrow>
       if swi_no = SWI_Read then Some (swi_read r s0 e0)
       else if swi_no = SWI_CalibrateTopRight then
         (case swi_calibrate_top_right s0 e0 of
            None \<Rightarrow> None | Some (s1, e1) \<Rightarrow> Some (None, r, s1, e1))
       else if swi_no = SWI_CalibrateBottomLeft then
         (case swi_calibrate_bottom_left s0 e0 of
            None \<Rightarrow> None | Some (s1, e1) \<Rightarrow> Some (None, r, s1, e1))
       else Some (Some error_BAD_SWI, r, s0, e0))"

section \<open>The command \<open>*JoystickConfig\<close>\<close>

text \<open>
  \<open>OS_ReadArgs\<close> fills \<open>args_buf\<close>: a switch is present or not, an evaluated element is
  absent or points to a block of a type byte and four value bytes.  \<open>eval_expr\<close> reads
  such a block (\<open>char\<close> is unsigned for this compiler).
\<close>

type_synonym eval_block = "u8 \<times> u8 \<times> u8 \<times> u8 \<times> u8"

definition eval_expr :: "eval_block \<Rightarrow> u32" where
  "eval_expr buffer =
    (case buffer of (b0, b1, b2, b3, b4) \<Rightarrow>
       if b0 = 0
       then ucast b1 OR push_bit 8 (ucast b2) OR push_bit 16 (ucast b3) OR push_bit 24 (ucast b4)
       else 0)"

record config_args =
  arg_smooth :: bool
  arg_nosmooth :: bool
  arg_ctrzone :: bool
  arg_noctrzone :: bool
  arg_endzone :: bool
  arg_noendzone :: bool
  arg_tolerance :: "eval_block option"
  arg_timeout :: "eval_block option"
  arg_poll :: "eval_block option"

text \<open>The three switch pairs; \<open>recalc\<close> is the local flag of the same name.\<close>

definition config_smooth :: "config_args \<Rightarrow> state \<Rightarrow> state" where
  "config_smooth a s =
    (if arg_smooth a then s\<lparr>smooth := True\<rparr>
     else if arg_nosmooth a then s\<lparr>smooth := False\<rparr> else s)"

definition config_ctrzone :: "config_args \<Rightarrow> bool \<times> state \<Rightarrow> bool \<times> state" where
  "config_ctrzone a rs =
    (case rs of (recalc, s) \<Rightarrow>
       if arg_ctrzone a then
         (if \<not> ctr_zones s then (True, s\<lparr>ctr_zones := True\<rparr>) else (recalc, s))
       else if arg_noctrzone a then (True, s\<lparr>ctr_zones := False\<rparr>)
       else (recalc, s))"

definition config_endzone :: "config_args \<Rightarrow> bool \<times> state \<Rightarrow> bool \<times> state" where
  "config_endzone a rs =
    (case rs of (recalc, s) \<Rightarrow>
       if arg_endzone a then
         (if \<not> ctr_zones s then (True, s\<lparr>end_zones := True\<rparr>) else (recalc, s))
       else if arg_noendzone a then (True, s\<lparr>end_zones := False\<rparr>)
       else (recalc, s))"

text \<open>The \<open>-poll\<close> element: the ticker event is re-registered at the new interval.\<close>

definition config_poll :: "config_args \<Rightarrow> state \<Rightarrow> env \<Rightarrow> error option \<times> state \<times> env" where
  "config_poll a s e =
    (case arg_poll a of
       None \<Rightarrow> (None, s, e)
     | Some blk \<Rightarrow>
         (let new_freq0 = eval_expr blk - 1;
              new_freq = (if sint new_freq0 \<le> 0 then 1 else new_freq0)
          in if new_freq \<noteq> poll_freq s then
               (if polling_stick s then
                  (case swix e of (err1, e1) \<Rightarrow>
                     (case err1 of
                        Some x \<Rightarrow> (Some x, s, e1)
                      | None \<Rightarrow>
                          (case swix e1 of (err2, e2) \<Rightarrow>
                             (case err2 of
                                Some x \<Rightarrow> (Some x, s\<lparr>polling_stick := False\<rparr>, e2)
                              | None \<Rightarrow> (None, s\<lparr>poll_freq := new_freq\<rparr>, e2)))))
                else (None, s\<lparr>poll_freq := new_freq\<rparr>, e))
             else (None, s, e)))"

text \<open>
  The case \<open>CMD_JoystickConfig\<close> of \<open>MicoJoy_cmdhandler\<close>; \<open>readargs\<close> is what
  \<open>OS_ReadArgs\<close> returns for the command tail.  With no arguments the command only
  prints the settings.
\<close>

definition JoystickConfig ::
  "int \<Rightarrow> error + config_args \<Rightarrow> state \<Rightarrow> env \<Rightarrow> error option \<times> state \<times> env"
where
  "JoystickConfig argc readargs s e =
    (if argc > 0 then
       (case readargs of
          Inl err \<Rightarrow> (Some err, s, e)
        | Inr a \<Rightarrow>
            if (arg_smooth a \<and> arg_nosmooth a) \<or> (arg_ctrzone a \<and> arg_noctrzone a)
               \<or> (arg_endzone a \<and> arg_noendzone a)
            then (Some error_command_syntax, s, e)
            else
              (let s1 = config_smooth a s;
                   rs = config_endzone a (config_ctrzone a (False, s1));
                   s2 = (if fst rs then recalc_coefficients (STICK_0 OR STICK_1) (snd rs)
                         else snd rs);
                   s3 = (case arg_tolerance a of
                           None \<Rightarrow> s2 | Some blk \<Rightarrow> s2\<lparr>tolerance := eval_expr blk\<rparr>);
                   s4 = (case arg_timeout a of
                           None \<Rightarrow> s3 | Some blk \<Rightarrow> s3\<lparr>max_wait := eval_expr blk\<rparr>)
               in config_poll a s4 e))
     else (None, s, e))"

section \<open>The command \<open>*JoystickCalib\<close>\<close>

record calib_args =
  carg_joynum :: eval_block
  carg_xory :: string
  carg_min :: "eval_block option"
  carg_ctr :: "eval_block option"
  carg_max :: "eval_block option"
  carg_ctrzone :: "eval_block option"
  carg_endzone :: "eval_block option"
  carg_smooth :: "eval_block option"

text \<open>The case \<open>CMD_JoystickCalib\<close> of \<open>MicoJoy_cmdhandler\<close>.\<close>

definition JoystickCalib :: "error + calib_args \<Rightarrow> state \<Rightarrow> error option \<times> state" where
  "JoystickCalib readargs s =
    (case readargs of
       Inl err \<Rightarrow> (Some err, s)
     | Inr a \<Rightarrow>
         (let joynum = eval_expr (carg_joynum a) in
          if sint joynum > int NUM_STICKS - 1 \<or> sint joynum < 0 then (Some bad_joy_num, s)
          else if carg_xory a \<noteq> ''x'' \<and> carg_xory a \<noteq> ''X''
                  \<and> carg_xory a \<noteq> ''y'' \<and> carg_xory a \<noteq> ''Y''
          then (Some error_command_syntax, s)
          else
            (let change_x = (carg_xory a = ''x'' \<or> carg_xory a = ''X'');
                 n = unat joynum;
                 s1 = (case carg_min a of
                         None \<Rightarrow> s
                       | Some blk \<Rightarrow>
                           if change_x then s\<lparr>x_min := (x_min s)(n := eval_expr blk)\<rparr>
                           else s\<lparr>y_min := (y_min s)(n := eval_expr blk)\<rparr>);
                 s2 = (case carg_ctr a of
                         None \<Rightarrow> s1
                       | Some blk \<Rightarrow>
                           if change_x then s1\<lparr>x_ctr := (x_ctr s1)(n := eval_expr blk)\<rparr>
                           else s1\<lparr>y_ctr := (y_ctr s1)(n := eval_expr blk)\<rparr>);
                 s3 = (case carg_max a of
                         None \<Rightarrow> s2
                       | Some blk \<Rightarrow>
                           if change_x then s2\<lparr>x_max := (x_max s2)(n := eval_expr blk)\<rparr>
                           else s2\<lparr>y_max := (y_max s2)(n := eval_expr blk)\<rparr>);
                 s4 = (case carg_ctrzone a of
                         None \<Rightarrow> s3
                       | Some blk \<Rightarrow>
                           if change_x
                           then s3\<lparr>x_ctr_deadz := (x_ctr_deadz s3)(n := eval_expr blk)\<rparr>
                           else s3\<lparr>y_ctr_deadz := (y_ctr_deadz s3)(n := eval_expr blk)\<rparr>);
                 s5 = (case carg_endzone a of
                         None \<Rightarrow> s4
                       | Some blk \<Rightarrow>
                           if change_x
                           then s4\<lparr>x_end_deadz := (x_end_deadz s4)(n := eval_expr blk)\<rparr>
                           else s4\<lparr>y_end_deadz := (y_end_deadz s4)(n := eval_expr blk)\<rparr>);
                 s6 = (case carg_smooth a of
                         None \<Rightarrow> s5
                       | Some blk \<Rightarrow>
                           if change_x then s5\<lparr>x_smooth := (x_smooth s5)(n := eval_expr blk)\<rparr>
                           else s5\<lparr>y_smooth := (y_smooth s5)(n := eval_expr blk)\<rparr>)
             in (None, recalc_coefficients (push_bit n 1) s6))))"

section \<open>The replies of \<open>Joystick_Read\<close>, and the driver at start-up\<close>

text \<open>
  The fields of the registers on entry and on exit: the reason code in bits 8-15 of R0
  on entry; for reason code 0 the signed 8-bit x value in bits 8-15 of R0, for reason
  code 1 the 16-bit x value in bits 16-31 of R0.
\<close>

definition reason_code_of :: "regs \<Rightarrow> u8" where
  "reason_code_of r = ucast (drop_bit 8 (r 0 AND 0xff00))"

definition reply_x8 :: "regs \<Rightarrow> u8" where
  "reply_x8 r = ucast (drop_bit 8 (r 0))"

definition reply_x16 :: "regs \<Rightarrow> 16 word" where
  "reply_x16 r = ucast (drop_bit 16 (r 0))"

text \<open>The file-scope variables as their initialisers leave them when the module loads.\<close>

definition initial_state :: state where
  "initial_state =
    \<lparr>axes_mask = 0, calib_status = CALIB_NONE,
     x_axis = (\<lambda>_. 0), y_axis = (\<lambda>_. 0),
     x_min = (\<lambda>_. 0), x_max = (\<lambda>_. 0), y_min = (\<lambda>_. 0), y_max = (\<lambda>_. 0),
     x_ctr_deadz = (\<lambda>_. 0), y_ctr_deadz = (\<lambda>_. 0), x_ctr = (\<lambda>_. 0), y_ctr = (\<lambda>_. 0),
     x_end_deadz = (\<lambda>_. 0), y_end_deadz = (\<lambda>_. 0),
     x_smooth = (\<lambda>_. 0), y_smooth = (\<lambda>_. 0),
     x_ctr_low = (\<lambda>_. 0), y_ctr_low = (\<lambda>_. 0),
     x_ctr_high = (\<lambda>_. 0), y_ctr_high = (\<lambda>_. 0),
     x_low_scaler = (\<lambda>_. 0), x_high_scaler = (\<lambda>_. 0),
     y_low_scaler = (\<lambda>_. 0), y_high_scaler = (\<lambda>_. 0),
     polling_stick = False, swi_in_last_min = False,
     callback_pending = False, callback_free = True,
     max_wait = MAX_AXIS_WAIT_TIME, tolerance = MAX_GRANULARITY,
     smooth = True, end_zones = True, ctr_zones = True,
     poll_freq = POLL_FREQUENCY - 1\<rparr>"

text \<open>
  A sample environment: every read of the port shows all four axis bits low, timer 0
  is latched at 1000 before a timing loop and 20 to 22 ticks lower in it, the
  centisecond clock moves between any two readings, and the calls of the operating
  system succeed.  \<open>endzone_only\<close> is the command tail \<open>-endzone\<close>.
\<close>

definition sample_env :: env where
  "sample_env =
    \<lparr>port_in = (\<lambda>_. 0), port_pos = 0,
     timer_in = (\<lambda>k. (if even k then 0xE8 else 0xD4 - of_nat ((k div 2) mod 3), 3)),
     timer_pos = 0,
     clock_in = (\<lambda>k. (None, of_nat k)), clock_pos = 0,
     swi_in = (\<lambda>_. None), swi_pos = 0\<rparr>"

definition endzone_only :: config_args where
  "endzone_only =
    \<lparr>arg_smooth = False, arg_nosmooth = False, arg_ctrzone = False,
     arg_noctrzone = False, arg_endzone = True, arg_noendzone = False,
     arg_tolerance = None, arg_timeout = None, arg_poll = None\<rparr>"

section \<open>Notions used to state the properties\<close>

text \<open>
  The divisors that \<open>recalc_coefficients\<close> hands to \<open>safedivide\<close>, written on the state
  they are taken from (the centre limits are those just stored).
\<close>

definition end_dz_x :: "state \<Rightarrow> nat \<Rightarrow> u32" where
  "end_dz_x s n = (if end_zones s then x_end_deadz s n else 0)"

definition end_dz_y :: "state \<Rightarrow> nat \<Rightarrow> u32" where
  "end_dz_y s n = (if end_zones s then y_end_deadz s n else 0)"

definition x_low_divisor :: "state \<Rightarrow> nat \<Rightarrow> u32" where
  "x_low_divisor s n = x_ctr_low s n - (x_min s n + end_dz_x s n)"

definition x_high_divisor :: "state \<Rightarrow> nat \<Rightarrow> u32" where
  "x_high_divisor s n = (x_max s n - end_dz_x s n) - x_ctr_high s n"

definition y_low_divisor :: "state \<Rightarrow> nat \<Rightarrow> u32" where
  "y_low_divisor s n = y_ctr_low s n - (y_min s n + end_dz_y s n)"

definition y_high_divisor :: "state \<Rightarrow> nat \<Rightarrow> u32" where
  "y_high_divisor s n = (y_max s n - end_dz_y s n) - y_ctr_high s n"

text \<open>The state with another raw timing cached for an axis of a stick.\<close>

definition cache_x :: "state \<Rightarrow> nat \<Rightarrow> u32 \<Rightarrow> state" where
  "cache_x s n raw = s\<lparr>x_axis := (x_axis s)(n := raw)\<rparr>"

definition cache_y :: "state \<Rightarrow> nat \<Rightarrow> u32 \<Rightarrow> state" where
  "cache_y s n raw = s\<lparr>y_axis := (y_axis s)(n := raw)\<rparr>"

text \<open>
  The product of scaler and offset that a conversion forms for a raw timing is a
  32-bit \<open>unsigned int\<close>.  \<open>mul_fits\<close> says that the exact product is below \<open>2 ^ 32\<close>, so
  that the code's product is the exact one.
\<close>

definition mul_fits :: "u32 \<Rightarrow> u32 \<Rightarrow> u32 \<Rightarrow> u32 \<Rightarrow> u32 \<Rightarrow> bool" where
  "mul_fits ctr_low ctr_high low_scaler high_scaler axis =
    (if axis > ctr_low then
       (if axis < ctr_high then True
        else uint high_scaler * uint (axis - ctr_high) < 2 ^ 32)
     else uint low_scaler * uint (ctr_low - axis) < 2 ^ 32)"

definition x_fits :: "state \<Rightarrow> nat \<Rightarrow> u32 \<Rightarrow> bool" where
  "x_fits s n raw =
    mul_fits (x_ctr_low s n) (x_ctr_high s n) (x_low_scaler s n) (x_high_scaler s n) raw"

definition y_fits :: "state \<Rightarrow> nat \<Rightarrow> u32 \<Rightarrow> bool" where
  "y_fits s n raw =
    mul_fits (y_ctr_low s n) (y_ctr_high s n) (y_low_scaler s n) (y_high_scaler s n) raw"

text \<open>
  \<open>Joystick_Read\<close> with reason code 0 or 1 for a stick, all other bits of R0 clear:
  the error returned and the x field of R0 on exit.
\<close>

definition read_x8 :: "u8 \<Rightarrow> state \<Rightarrow> env \<Rightarrow> (error option \<times> u8) option" where
  "read_x8 stick_num s e =
    map_option (\<lambda>out. (fst out, reply_x8 (fst (snd out))))
      (MicoJoy_swihandler SWI_Read ((\<lambda>_. 0)(0 := ucast stick_num)) s e)"

definition read_x16 :: "u8 \<Rightarrow> state \<Rightarrow> env \<Rightarrow> (error option \<times> 16 word) option" where
  "read_x16 stick_num s e =
    map_option (\<lambda>out. (fst out, reply_x16 (fst (snd out))))
      (MicoJoy_swihandler SWI_Read ((\<lambda>_. 0)(0 := 0x100 OR ucast stick_num)) s e)"

text \<open>
  The scenario of the specification: the command
  \<open>*JoystickCalib 0 X -min 0 -ctr 703 -max 1406 -ctrzone 48 -endzone 0\<close> on any state,
  then a raw timing cached for the X axis of stick 0 while the driver is polling and no
  calibration is pending.
\<close>

definition scenario_calib :: calib_args where
  "scenario_calib =
    \<lparr>carg_joynum = (0, 0, 0, 0, 0), carg_xory = ''X'',
     carg_min = Some (0, 0, 0, 0, 0), carg_ctr = Some (0, 0xBF, 0x02, 0, 0),
     carg_max = Some (0, 0x7E, 0x05, 0, 0), carg_ctrzone = Some (0, 48, 0, 0, 0),
     carg_endzone = Some (0, 0, 0, 0, 0), carg_smooth = None\<rparr>"

definition scenario :: "state \<Rightarrow> u32 \<Rightarrow> state" where
  "scenario s raw =
    (let s1 = snd (JoystickCalib (Inr scenario_calib) s)
     in s1\<lparr>x_axis := (x_axis s1)(0 := raw), polling_stick := True,
           calib_status := CALIB_NONE\<rparr>)"

text \<open>
  Two calibrations for the examples.  In \<open>sample_calibration\<close> the X axes have centre
  128 and range 0 to 256 with no dead zones (both X scalers are \<open>2 ^ 22\<close>), the Y axes
  centre 703, centre zone 48 and range 0 to 1406.  In \<open>inverted_calibration\<close> the X
  minimum 800 lies above the centre.
\<close>

definition sample_calibration :: state where
  "sample_calibration =
    recalc_coefficients (STICK_0 OR STICK_1)
      (initial_state\<lparr>x_ctr := (\<lambda>_. 128), x_max := (\<lambda>_. 256),
         y_ctr := (\<lambda>_. 703), y_max := (\<lambda>_. 1406), y_ctr_deadz := (\<lambda>_. 48)\<rparr>)"

definition inverted_calibration :: state where
  "inverted_calibration =
    initial_state\<lparr>x_ctr := (\<lambda>_. 703), x_ctr_deadz := (\<lambda>_. 48),
      x_min := (\<lambda>_. 800), x_max := (\<lambda>_. 1406)\<rparr>"

section \<open>Notions for one acquisition cycle\<close>

text \<open>
  The bit of the status byte, the entry of \<open>new_x\<close> or \<open>new_y\<close> and the cached value that
  belong to an axis of a stick; the state of the timing loop of \<open>read_joystick\<close> after
  \<open>j\<close> passes; and what a pass finds for an axis bit: the bit registers completion when
  it is set in the masked, inverted status byte, and the reading is then accepted or
  discarded according to the time since the previous sample.
\<close>

definition axis_bit :: "bool \<Rightarrow> nat \<Rightarrow> u32" where
  "axis_bit is_x n =
    (if n = 0 then (if is_x then PC_JOY_A_X else PC_JOY_A_Y)
     else (if is_x then PC_JOY_B_X else PC_JOY_B_Y))"

definition axis_new :: "bool \<Rightarrow> nat \<Rightarrow> rj_loop \<Rightarrow> u32" where
  "axis_new is_x n lp = (if is_x then rj_new_x lp n else rj_new_y lp n)"

definition axis_cache :: "bool \<Rightarrow> state \<Rightarrow> nat \<Rightarrow> u32" where
  "axis_cache is_x s n = (if is_x then x_axis s n else y_axis s n)"

definition rj_run :: "state \<Rightarrow> u32 \<Rightarrow> env \<Rightarrow> nat \<Rightarrow> rj_loop" where
  "rj_run s mask_arg e j = (rj_step s ^^ j) (rj_init mask_arg e)"

definition completes :: "rj_loop \<Rightarrow> u32 \<Rightarrow> bool" where
  "completes lp b \<longleftrightarrow> fst (rj_sample lp) AND b \<noteq> 0"

definition accepted :: "state \<Rightarrow> rj_loop \<Rightarrow> u32 \<Rightarrow> bool" where
  "accepted s lp b \<longleftrightarrow> completes lp b \<and> fst (snd (rj_sample lp)) \<le> tolerance s"

definition discarded :: "state \<Rightarrow> rj_loop \<Rightarrow> u32 \<Rightarrow> bool" where
  "discarded s lp b \<longleftrightarrow> completes lp b \<and> \<not> fst (snd (rj_sample lp)) \<le> tolerance s"

text \<open>
  An environment and a state for a cycle in which the axes fare differently: the X
  axis of stick A completes at the first sample, 20 ticks after the start; its Y axis
  at the second, which comes 100 ticks after the first; stick B never completes; the
  driver waits for at most 200 ticks and all cached values are 800.
\<close>

definition busy_env :: env where
  "busy_env =
    \<lparr>port_in = (\<lambda>k. if k = 0 then 0x0E else 0x0C), port_pos = 0,
     timer_in = (\<lambda>k. if k = 0 then (0xE8, 3) else if k = 1 then (0xD4, 3)
                      else if k = 2 then (0x70, 3) else (0x0C, 3)),
     timer_pos = 0,
     clock_in = (\<lambda>k. (None, of_nat k)), clock_pos = 0,
     swi_in = (\<lambda>_. None), swi_pos = 0\<rparr>"

definition slow_state :: state where
  "slow_state = initial_state\<lparr>max_wait := 200, x_axis := (\<lambda>_. 800), y_axis := (\<lambda>_. 800)\<rparr>"

section \<open>Properties of the smoothing function\<close>

text \<open>
  C4.  The claim is that whenever the new value is within \<open>width\<close> of the previous
  one, \<open>smooth_value\<close> returns \<open>(3 * prev + new) / 4\<close>.  The code computes the lower
  bound \<open>prev_value - stddev\<close> in unsigned arithmetic, so for a previous value below
  the width the bound wraps around to a huge number and every tier is skipped: with
  previous value 5, new value 7 and width 10 the distance is 2, heavy damping would
  give 5, and the code returns the new value 7 unchanged.
\<close>

theorem smooth_value_small_prev:
  "smooth_value 5 7 10 = 7 \<and> smooth_value 5 7 10 \<noteq> (3 * 5 + 7) div 4"
  by (simp add: smooth_value_def)

section \<open>What recomputing the coefficients writes\<close>

lemma recalc_stick_other:
  "m \<noteq> n \<Longrightarrow>
     x_ctr_low (recalc_stick n s) m = x_ctr_low s m \<and>
     x_ctr_high (recalc_stick n s) m = x_ctr_high s m \<and>
     y_ctr_low (recalc_stick n s) m = y_ctr_low s m \<and>
     y_ctr_high (recalc_stick n s) m = y_ctr_high s m \<and>
     x_low_scaler (recalc_stick n s) m = x_low_scaler s m \<and>
     x_high_scaler (recalc_stick n s) m = x_high_scaler s m \<and>
     y_low_scaler (recalc_stick n s) m = y_low_scaler s m \<and>
     y_high_scaler (recalc_stick n s) m = y_high_scaler s m"
  by (simp add: recalc_stick_def Let_def)

lemma recalc_coefficients_frame:
  "recalc_coefficients sticks s =
     s\<lparr>x_ctr_low := x_ctr_low (recalc_coefficients sticks s),
       x_ctr_high := x_ctr_high (recalc_coefficients sticks s),
       y_ctr_low := y_ctr_low (recalc_coefficients sticks s),
       y_ctr_high := y_ctr_high (recalc_coefficients sticks s),
       x_low_scaler := x_low_scaler (recalc_coefficients sticks s),
       x_high_scaler := x_high_scaler (recalc_coefficients sticks s),
       y_low_scaler := y_low_scaler (recalc_coefficients sticks s),
       y_high_scaler := y_high_scaler (recalc_coefficients sticks s)\<rparr>"
  by (simp add: recalc_coefficients_def stick_order_def recalc_stick_def Let_def)

lemma recalc_coefficients_other:
  "\<not> (m < NUM_STICKS \<and> stick_selected sticks m) \<Longrightarrow>
     x_ctr_low (recalc_coefficients sticks s) m = x_ctr_low s m \<and>
     x_ctr_high (recalc_coefficients sticks s) m = x_ctr_high s m \<and>
     y_ctr_low (recalc_coefficients sticks s) m = y_ctr_low s m \<and>
     y_ctr_high (recalc_coefficients sticks s) m = y_ctr_high s m \<and>
     x_low_scaler (recalc_coefficients sticks s) m = x_low_scaler s m \<and>
     x_high_scaler (recalc_coefficients sticks s) m = x_high_scaler s m \<and>
     y_low_scaler (recalc_coefficients sticks s) m = y_low_scaler s m \<and>
     y_high_scaler (recalc_coefficients sticks s) m = y_high_scaler s m"
  apply (simp add: recalc_coefficients_def stick_order_def NUM_STICKS_def)
  apply (cases "m = 0"; cases "m = 1"; simp add: recalc_stick_other)
  done

lemma recalc_coefficients_primary:
  "x_min (recalc_coefficients sticks s) = x_min s \<and>
   x_ctr (recalc_coefficients sticks s) = x_ctr s \<and>
   x_max (recalc_coefficients sticks s) = x_max s \<and>
   x_ctr_deadz (recalc_coefficients sticks s) = x_ctr_deadz s \<and>
   x_end_deadz (recalc_coefficients sticks s) = x_end_deadz s \<and>
   x_smooth (recalc_coefficients sticks s) = x_smooth s \<and>
   y_min (recalc_coefficients sticks s) = y_min s \<and>
   y_ctr (recalc_coefficients sticks s) = y_ctr s \<and>
   y_max (recalc_coefficients sticks s) = y_max s \<and>
   y_ctr_deadz (recalc_coefficients sticks s) = y_ctr_deadz s \<and>
   y_end_deadz (recalc_coefficients sticks s) = y_end_deadz s \<and>
   y_smooth (recalc_coefficients sticks s) = y_smooth s \<and>
   x_axis (recalc_coefficients sticks s) = x_axis s \<and>
   y_axis (recalc_coefficients sticks s) = y_axis s"
  by (simp_all add: recalc_coefficients_def stick_order_def recalc_stick_def Let_def)

text \<open>
  C10.  For every stick mask and every state, \<open>recalc_coefficients\<close> returns the state
  with at most the eight derived arrays (\<open>ctr_low\<close>, \<open>ctr_high\<close>, \<open>low_scaler\<close>,
  \<open>high_scaler\<close> of X and of Y) replaced: the primary calibration values, the cached
  axis values and every other variable are as before, and the derived entries of a
  stick that the mask does not select are as before too.
\<close>

theorem recalc_coefficients_writes_only_derived:
  "recalc_coefficients sticks s =
     s\<lparr>x_ctr_low := x_ctr_low (recalc_coefficients sticks s),
       x_ctr_high := x_ctr_high (recalc_coefficients sticks s),
       y_ctr_low := y_ctr_low (recalc_coefficients sticks s),
       y_ctr_high := y_ctr_high (recalc_coefficients sticks s),
       x_low_scaler := x_low_scaler (recalc_coefficients sticks s),
       x_high_scaler := x_high_scaler (recalc_coefficients sticks s),
       y_low_scaler := y_low_scaler (recalc_coefficients sticks s),
       y_high_scaler := y_high_scaler (recalc_coefficients sticks s)\<rparr> \<and>
   (x_min (recalc_coefficients sticks s) = x_min s \<and>
    x_ctr (recalc_coefficients sticks s) = x_ctr s \<and>
    x_max (recalc_coefficients sticks s) = x_max s \<and>
    x_ctr_deadz (recalc_coefficients sticks s) = x_ctr_deadz s \<and>
    x_end_deadz (recalc_coefficients sticks s) = x_end_deadz s \<and>
    x_smooth (recalc_coefficients sticks s) = x_smooth s \<and>
    y_min (recalc_coefficients sticks s) = y_min s \<and>
    y_ctr (recalc_coefficients sticks s) = y_ctr s \<and>
    y_max (recalc_coefficients sticks s) = y_max s \<and>
    y_ctr_deadz (recalc_coefficients sticks s) = y_ctr_deadz s \<and>
    y_end_deadz (recalc_coefficients sticks s) = y_end_deadz s \<and>
    y_smooth (recalc_coefficients sticks s) = y_smooth s \<and>
    x_axis (recalc_coefficients sticks s) = x_axis s \<and>
    y_axis (recalc_coefficients sticks s) = y_axis s) \<and>
   (\<forall>m. \<not> (m < NUM_STICKS \<and> stick_selected sticks m) \<longrightarrow>
      x_ctr_low (recalc_coefficients sticks s) m = x_ctr_low s m \<and>
      x_ctr_high (recalc_coefficients sticks s) m = x_ctr_high s m \<and>
      y_ctr_low (recalc_coefficients sticks s) m = y_ctr_low s m \<and>
      y_ctr_high (recalc_coefficients sticks s) m = y_ctr_high s m \<and>
      x_low_scaler (recalc_coefficients sticks s) m = x_low_scaler s m \<and>
      x_high_scaler (recalc_coefficients sticks s) m = x_high_scaler s m \<and>
      y_low_scaler (recalc_coefficients sticks s) m = y_low_scaler s m \<and>
      y_high_scaler (recalc_coefficients sticks s) m = y_high_scaler s m)"
proof -
  have a: "recalc_coefficients sticks s =
     s\<lparr>x_ctr_low := x_ctr_low (recalc_coefficients sticks s),
       x_ctr_high := x_ctr_high (recalc_coefficients sticks s),
       y_ctr_low := y_ctr_low (recalc_coefficients sticks s),
       y_ctr_high := y_ctr_high (recalc_coefficients sticks s),
       x_low_scaler := x_low_scaler (recalc_coefficients sticks s),
       x_high_scaler := x_high_scaler (recalc_coefficients sticks s),
       y_low_scaler := y_low_scaler (recalc_coefficients sticks s),
       y_high_scaler := y_high_scaler (recalc_coefficients sticks s)\<rparr>"
    by (rule recalc_coefficients_frame)
  have c: "\<forall>m. \<not> (m < NUM_STICKS \<and> stick_selected sticks m) \<longrightarrow>
      x_ctr_low (recalc_coefficients sticks s) m = x_ctr_low s m \<and>
      x_ctr_high (recalc_coefficients sticks s) m = x_ctr_high s m \<and>
      y_ctr_low (recalc_coefficients sticks s) m = y_ctr_low s m \<and>
      y_ctr_high (recalc_coefficients sticks s) m = y_ctr_high s m \<and>
      x_low_scaler (recalc_coefficients sticks s) m = x_low_scaler s m \<and>
      x_high_scaler (recalc_coefficients sticks s) m = x_high_scaler s m \<and>
      y_low_scaler (recalc_coefficients sticks s) m = y_low_scaler s m \<and>
      y_high_scaler (recalc_coefficients sticks s) m = y_high_scaler s m"
    by (intro allI impI recalc_coefficients_other)
  show ?thesis
    by (rule conjI [OF a conjI [OF recalc_coefficients_primary c]])
qed

text \<open>
  The theorem at the mask \<open>STICK_0\<close> and the start-up state with stick 0 centred at
  703: stick 1 is not selected, and its derived entries stay 0, while those of stick 0
  are written.
\<close>

theorem recalc_coefficients_writes_only_derived_witness:
  "\<not> (1 < NUM_STICKS \<and> stick_selected STICK_0 1) \<and>
   x_ctr_low (recalc_coefficients STICK_0 (initial_state\<lparr>x_ctr := (\<lambda>_. 703)\<rparr>)) 1 = 0 \<and>
   x_ctr_high (recalc_coefficients STICK_0 (initial_state\<lparr>x_ctr := (\<lambda>_. 703)\<rparr>)) 1 = 0 \<and>
   x_ctr_low (recalc_coefficients STICK_0 (initial_state\<lparr>x_ctr := (\<lambda>_. 703)\<rparr>)) 0 = 703 \<and>
   x_ctr (recalc_coefficients STICK_0 (initial_state\<lparr>x_ctr := (\<lambda>_. 703)\<rparr>)) 1 = 703"
proof -
  have sel: "\<not> (1 < NUM_STICKS \<and> stick_selected STICK_0 1)"
    by (simp add: stick_selected_def STICK_0_def)
  have low0: "x_ctr_low (recalc_coefficients STICK_0 (initial_state\<lparr>x_ctr := (\<lambda>_. 703)\<rparr>)) 0 = 703"
    by (simp add: recalc_coefficients_def stick_order_def stick_selected_def STICK_0_def
        recalc_stick_def Let_def initial_state_def)
  show ?thesis
    using recalc_coefficients_writes_only_derived [of STICK_0 "initial_state\<lparr>x_ctr := (\<lambda>_. 703)\<rparr>"]
      sel low0
    by (simp add: initial_state_def)
qed

section \<open>Reads and the calibration state\<close>

lemma read_reply_state: "read_reply r s e = (err, r', s', e') \<Longrightarrow> s' = s"
  by (auto simp: read_reply_def Let_def split: if_splits prod.splits)

lemma read_reply_not_calib: "fst (read_reply r s e) \<noteq> Some error_calib"
  by (auto simp: read_reply_def Let_def split: if_splits prod.splits)

lemma read_reply_ok:
  "reason_code_of r = 0 \<or> reason_code_of r = 1 \<Longrightarrow> fst (read_reply r s e) = None"
  by (auto simp: read_reply_def reason_code_of_def Let_def split: if_splits prod.splits)

lemma stop_polling_read: "stop_polling_for_calibration SWI_Read s e = (s, e)"
  by (simp add: stop_polling_for_calibration_def SWI_Read_def SWI_CalibrateTopRight_def
      SWI_CalibrateBottomLeft_def)

lemma swihandler_read: "MicoJoy_swihandler SWI_Read r s e = Some (swi_read r s e)"
  by (simp add: MicoJoy_swihandler_def stop_polling_read)

lemma swix_not_calib: "fst (swix e) \<noteq> Some error_calib"
  by (auto simp: swix_def)

lemma swi_read_not_calib:
  "calib_status s = CALIB_NONE \<Longrightarrow> fst (swi_read r s e) \<noteq> Some error_calib"
  using swix_not_calib [of e] read_reply_not_calib
  by (auto simp: swi_read_def Let_def split: prod.splits option.splits)

lemma swi_read_ok:
  "calib_status s = CALIB_NONE \<Longrightarrow> polling_stick s \<or> fst (swix e) = None \<Longrightarrow>
   reason_code_of r = 0 \<or> reason_code_of r = 1 \<Longrightarrow> fst (swi_read r s e) = None"
  using read_reply_ok
  by (auto simp: swi_read_def Let_def split: prod.splits option.splits)

text \<open>
  C6.  While the calibration state is not \<open>CALIB_NONE\<close>, \<open>Joystick_Read\<close> returns the
  error \<open>error_calib\<close> ("Joystick calibration incomplete") and leaves the registers,
  the driver's variables and the environment as they were.  Once the state is
  \<open>CALIB_NONE\<close> no read fails with that error any more, and a read with a supported
  reason code (0 or 1) succeeds whenever polling is running or can be started.
\<close>

theorem read_gated_by_calibration:
  "(calib_status s \<noteq> CALIB_NONE \<longrightarrow>
      MicoJoy_swihandler SWI_Read r s e = Some (Some error_calib, r, s, e)) \<and>
   (calib_status s = CALIB_NONE \<longrightarrow>
      (\<exists>out. MicoJoy_swihandler SWI_Read r s e = Some out \<and>
         fst out \<noteq> Some error_calib \<and>
         ((polling_stick s \<or> fst (swix e) = None) \<and>
          (reason_code_of r = 0 \<or> reason_code_of r = 1) \<longrightarrow> fst out = None)))"
proof (intro conjI impI)
  assume "calib_status s \<noteq> CALIB_NONE"
  then show "MicoJoy_swihandler SWI_Read r s e = Some (Some error_calib, r, s, e)"
    by (simp add: swihandler_read swi_read_def)
next
  assume c: "calib_status s = CALIB_NONE"
  show "\<exists>out. MicoJoy_swihandler SWI_Read r s e = Some out \<and>
         fst out \<noteq> Some error_calib \<and>
         ((polling_stick s \<or> fst (swix e) = None) \<and>
          (reason_code_of r = 0 \<or> reason_code_of r = 1) \<longrightarrow> fst out = None)"
    using swi_read_not_calib [OF c] swi_read_ok [OF c]
    by (intro exI [of _ "swi_read r s e"]) (simp add: swihandler_read)
qed

text \<open>
  The theorem after a top-right calibration alone (the read is refused, nothing
  changes) and at the start-up state (the 8-bit read of stick 0 succeeds).
\<close>

theorem read_gated_by_calibration_witness:
  "calib_status (initial_state\<lparr>calib_status := CALIB_TOP_RIGHT\<rparr>) \<noteq> CALIB_NONE \<and>
   MicoJoy_swihandler SWI_Read (\<lambda>_. 0) (initial_state\<lparr>calib_status := CALIB_TOP_RIGHT\<rparr>)
       sample_env =
     Some (Some error_calib, (\<lambda>_. 0), initial_state\<lparr>calib_status := CALIB_TOP_RIGHT\<rparr>,
           sample_env) \<and>
   calib_status initial_state = CALIB_NONE \<and>
   (\<exists>out. MicoJoy_swihandler SWI_Read (\<lambda>_. 0) initial_state sample_env = Some out \<and>
          fst out = None)"
  using read_gated_by_calibration
      [of "initial_state\<lparr>calib_status := CALIB_TOP_RIGHT\<rparr>" "\<lambda>_. 0" sample_env]
    read_gated_by_calibration [of initial_state "\<lambda>_. 0" sample_env]
  by (auto simp: initial_state_def CALIB_TOP_RIGHT_def CALIB_NONE_def swix_def sample_env_def
      reason_code_of_def)

section \<open>The first read after idling\<close>

lemma reseed_all:
  "fold reseed_stick stick_order s =
     s\<lparr>x_axis := (x_axis s)(1 := x_ctr s 1, 0 := x_ctr s 0),
       y_axis := (y_axis s)(1 := y_ctr s 1, 0 := y_ctr s 0)\<rparr>"
  by (simp add: stick_order_def reseed_stick_def Let_def)

text \<open>
  C7.  For a \<open>Joystick_Read\<close> made while the driver is not polling and no calibration
  is pending: if \<open>OS_CallEvery\<close> fails, its error is returned and the driver is still
  not recorded as polling; if it succeeds, the driver is recorded as polling, the
  cached X and Y values of both sticks are the sticks' centre values, and the reply is
  the one computed from that state.
\<close>

theorem read_while_idle_reseeds:
  assumes "calib_status s = CALIB_NONE" and "\<not> polling_stick s"
  shows "(\<forall>x. fst (swix e) = Some x \<longrightarrow>
            (\<exists>s'. MicoJoy_swihandler SWI_Read r s e = Some (Some x, r, s', snd (swix e)) \<and>
                  \<not> polling_stick s')) \<and>
         (fst (swix e) = None \<longrightarrow>
            (\<exists>err r' s' e'. MicoJoy_swihandler SWI_Read r s e = Some (err, r', s', e') \<and>
               polling_stick s' \<and>
               (\<forall>n < NUM_STICKS. x_axis s' n = x_ctr s n \<and> y_axis s' n = y_ctr s n) \<and>
               read_reply r s' (snd (swix e)) = (err, r', s', e')))"
proof (intro conjI impI allI)
  fix x assume "fst (swix e) = Some x"
  then show "\<exists>s'. MicoJoy_swihandler SWI_Read r s e = Some (Some x, r, s', snd (swix e)) \<and>
                  \<not> polling_stick s'"
    using assms by (auto simp: swihandler_read swi_read_def Let_def split: prod.splits)
next
  assume ok: "fst (swix e) = None"
  define s1 where
    "s1 = fold reseed_stick stick_order (s\<lparr>swi_in_last_min := True, polling_stick := True\<rparr>)"
  obtain err r' s' e' where rr: "read_reply r s1 (snd (swix e)) = (err, r', s', e')"
    by (cases "read_reply r s1 (snd (swix e))") auto
  then have s': "s' = s1" by (rule read_reply_state)
  have h: "MicoJoy_swihandler SWI_Read r s e = Some (err, r', s', e')"
    using assms ok rr
    by (auto simp: swihandler_read swi_read_def Let_def s1_def split: prod.splits)
  have p: "polling_stick s1" by (simp add: s1_def reseed_all)
  have a: "\<forall>n < NUM_STICKS. x_axis s1 n = x_ctr s n \<and> y_axis s1 n = y_ctr s n"
    by (auto simp: s1_def reseed_all NUM_STICKS_def less_Suc_eq numeral_2_eq_2)
  show "\<exists>err r' s' e'. MicoJoy_swihandler SWI_Read r s e = Some (err, r', s', e') \<and>
               polling_stick s' \<and>
               (\<forall>n < NUM_STICKS. x_axis s' n = x_ctr s n \<and> y_axis s' n = y_ctr s n) \<and>
               read_reply r s' (snd (swix e)) = (err, r', s', e')"
    using h p a rr s' by blast
qed

text \<open>
  The theorem at the start-up state with the centres of stick 0 set to 703 and 847:
  once where \<open>OS_CallEvery\<close> fails with error 42, once where it succeeds.
\<close>

theorem read_while_idle_reseeds_witness:
  "calib_status (initial_state\<lparr>x_ctr := (\<lambda>_. 703), y_ctr := (\<lambda>_. 847)\<rparr>) = CALIB_NONE \<and>
   \<not> polling_stick (initial_state\<lparr>x_ctr := (\<lambda>_. 703), y_ctr := (\<lambda>_. 847)\<rparr>) \<and>
   (\<exists>s'. MicoJoy_swihandler SWI_Read (\<lambda>_. 0)
            (initial_state\<lparr>x_ctr := (\<lambda>_. 703), y_ctr := (\<lambda>_. 847)\<rparr>)
            (sample_env\<lparr>swi_in := (\<lambda>_. Some 42)\<rparr>) =
          Some (Some (os_error 42), (\<lambda>_. 0), s',
                sample_env\<lparr>swi_in := (\<lambda>_. Some 42), swi_pos := 1\<rparr>) \<and>
        \<not> polling_stick s') \<and>
   (\<exists>err r' s' e'. MicoJoy_swihandler SWI_Read (\<lambda>_. 0)
            (initial_state\<lparr>x_ctr := (\<lambda>_. 703), y_ctr := (\<lambda>_. 847)\<rparr>) sample_env =
          Some (err, r', s', e') \<and>
        polling_stick s' \<and> x_axis s' 0 = 703 \<and> y_axis s' 0 = 847 \<and>
        x_axis s' 1 = 703 \<and> y_axis s' 1 = 847)"
proof -
  define s where "s = initial_state\<lparr>x_ctr := (\<lambda>_. 703), y_ctr := (\<lambda>_. 847)\<rparr>"
  define ef where "ef = sample_env\<lparr>swi_in := (\<lambda>_. Some 42)\<rparr>"
  have c: "calib_status s = CALIB_NONE" and p: "\<not> polling_stick s"
    and xc: "x_ctr s = (\<lambda>_. 703)" and yc: "y_ctr s = (\<lambda>_. 847)"
    by (simp_all add: s_def initial_state_def)
  have f: "fst (swix ef) = Some (os_error 42)"
    and f': "snd (swix ef) = sample_env\<lparr>swi_in := (\<lambda>_. Some 42), swi_pos := 1\<rparr>"
    and g: "fst (swix sample_env) = None"
    by (simp_all add: ef_def swix_def sample_env_def)
  have n: "(0::nat) < NUM_STICKS" "(1::nat) < NUM_STICKS"
    by (simp_all add: NUM_STICKS_def)
  from read_while_idle_reseeds [OF c p, of ef "\<lambda>_. 0"] f
  have a: "\<exists>s'. MicoJoy_swihandler SWI_Read (\<lambda>_. 0) s ef =
                 Some (Some (os_error 42), (\<lambda>_. 0), s', snd (swix ef)) \<and> \<not> polling_stick s'"
    by blast
  from read_while_idle_reseeds [OF c p, of sample_env "\<lambda>_. 0"] g
  obtain err r' s' e' where
    h: "MicoJoy_swihandler SWI_Read (\<lambda>_. 0) s sample_env = Some (err, r', s', e')"
    and ps: "polling_stick s'"
    and ax: "\<forall>n < NUM_STICKS. x_axis s' n = x_ctr s n \<and> y_axis s' n = y_ctr s n"
    by blast
  from ax n have v: "x_axis s' 0 = 703" "y_axis s' 0 = 847" "x_axis s' 1 = 703" "y_axis s' 1 = 847"
    by (simp_all add: xc yc)
  from h ps v
  have b: "\<exists>err r' s' e'. MicoJoy_swihandler SWI_Read (\<lambda>_. 0) s sample_env =
                 Some (err, r', s', e') \<and>
               polling_stick s' \<and> x_axis s' 0 = 703 \<and> y_axis s' 0 = 847 \<and>
               x_axis s' 1 = 703 \<and> y_axis s' 1 = 847"
    by blast
  from c p a b show ?thesis
    unfolding s_def ef_def f' [unfolded ef_def] by (intro conjI)
qed

section \<open>The switch \<open>-endzone\<close> of \<open>*JoystickConfig\<close>\<close>

lemma config_poll_end_zones: "end_zones (fst (snd (config_poll a s e))) = end_zones s"
  by (auto simp: config_poll_def Let_def split: option.splits prod.splits)

text \<open>
  C8.  The claim is that \<open>-endzone\<close> leaves end dead zones enabled whatever the other
  flags are.  The code guards the assignment \<open>end_zones = true\<close> with \<open>!ctr_zones\<close>
  where the sibling branch for \<open>-ctrzone\<close> tests the flag it sets: while centre zones
  are enabled (and \<open>-noctrzone\<close> is not given too), \<open>-endzone\<close> does nothing, and end
  dead zones that were disabled stay disabled.
\<close>

theorem endzone_switch_ignored:
  assumes "0 < argc" and "arg_endzone a" and "\<not> arg_noendzone a" and "\<not> arg_noctrzone a"
    and "\<not> (arg_smooth a \<and> arg_nosmooth a)" and "ctr_zones s" and "\<not> end_zones s"
  shows "\<not> end_zones (fst (snd (JoystickConfig argc (Inr a) s e)))"
  using assms
  by (auto simp: JoystickConfig_def Let_def config_poll_end_zones config_smooth_def
      config_ctrzone_def config_endzone_def split: option.splits)

text \<open>
  The theorem at the start-up state after \<open>*JoystickConfig -noendzone\<close> (centre zones
  on, end zones off), for the command \<open>*JoystickConfig -endzone\<close>.
\<close>

theorem endzone_switch_ignored_witness:
  "ctr_zones (initial_state\<lparr>end_zones := False\<rparr>) \<and>
   \<not> end_zones (initial_state\<lparr>end_zones := False\<rparr>) \<and>
   arg_endzone endzone_only \<and> \<not> arg_noendzone endzone_only \<and>
   \<not> end_zones (fst (snd (JoystickConfig 1 (Inr endzone_only)
                     (initial_state\<lparr>end_zones := False\<rparr>) sample_env)))"
  using endzone_switch_ignored
      [of 1 endzone_only "initial_state\<lparr>end_zones := False\<rparr>" sample_env]
  by (simp add: endzone_only_def initial_state_def)

section \<open>The conversions: signed values, range and monotonicity\<close>

lemma stb31: "- 2147483648 \<le> k \<Longrightarrow> k < 2147483648 \<Longrightarrow> signed_take_bit 31 (k::int) = k"
  by (rule signed_take_bit_int_eq_self) simp_all

lemma sint_small: "uint (w::u32) < 2147483648 \<Longrightarrow> sint w = uint w"
proof -
  assume a: "uint w < 2147483648"
  have c0: "0 \<le> uint w" by simp
  have "sint w = signed_take_bit 31 (uint w)" by (simp add: sint_uint)
  also have "\<dots> = uint w"
    using a c0 by (intro stb31) linarith+
  finally show ?thesis .
qed

lemma sint_neg_small: "uint (v::u32) < 2147483648 \<Longrightarrow> sint (- v) = - uint v"
proof -
  assume a: "uint v < 2147483648"
  have c0: "0 \<le> uint v" by simp
  have sv: "sint v = uint v" using a by (rule sint_small)
  have "sint (- v) = signed_take_bit 31 (- sint v)" by (simp add: sint_word_ariths)
  also have "\<dots> = - uint v"
    unfolding sv using a c0 by (intro stb31) linarith+
  finally show ?thesis .
qed

lemma sint_add_small:
  "uint (c::u32) < 1073741824 \<Longrightarrow> uint (v::u32) < 1073741824 \<Longrightarrow>
   sint (c + v) = uint c + uint v"
proof -
  assume a: "uint c < 1073741824" "uint v < 1073741824"
  have c0: "0 \<le> uint c" "0 \<le> uint v" by simp_all
  have sv: "sint c = uint c" "sint v = uint v" using a by (simp_all add: sint_small)
  have "sint (c + v) = signed_take_bit 31 (sint c + sint v)" by (simp add: sint_word_ariths)
  also have "\<dots> = uint c + uint v"
    unfolding sv using a c0 by (intro stb31) linarith+
  finally show ?thesis .
qed

lemma sint_sub_small:
  "uint (c::u32) < 2147483648 \<Longrightarrow> uint (v::u32) < 2147483648 \<Longrightarrow>
   sint (c - v) = uint c - uint v"
proof -
  assume a: "uint c < 2147483648" "uint v < 2147483648"
  have c0: "0 \<le> uint c" "0 \<le> uint v" by simp_all
  have sv: "sint c = uint c" "sint v = uint v" using a by (simp_all add: sint_small)
  have "sint (c - v) = signed_take_bit 31 (sint c - sint v)" by (simp add: sint_word_ariths)
  also have "\<dots> = uint c - uint v"
    unfolding sv using a c0 by (intro stb31) linarith+
  finally show ?thesis .
qed

lemma uint_drop22: "uint (drop_bit 22 (w::u32)) = uint w div 4194304"
  by (simp add: drop_bit_eq_div uint_div)

lemma uint_drop14: "uint (drop_bit 14 (w::u32)) = uint w div 16384"
  by (simp add: drop_bit_eq_div uint_div)

lemma uint_drop22_less: "uint (drop_bit 22 (w::u32)) < 1024"
proof -
  have "uint w < 4294967296" using uint_lt2p [of w] by simp
  then show ?thesis unfolding uint_drop22 by simp
qed

lemma uint_drop14_less: "uint (drop_bit 14 (w::u32)) < 262144"
proof -
  have "uint w < 4294967296" using uint_lt2p [of w] by simp
  then show ?thesis unfolding uint_drop14 by simp
qed

lemma sh22: "SCALER_FRAC_SHIFT + 8 = 22" by (simp add: SCALER_FRAC_SHIFT_def)

lemma sint_clamp8_pos: "sint (clamp8 (drop_bit 22 (w::u32))) = min 127 (uint w div 4194304)"
proof -
  have l: "uint (drop_bit 22 w) < 1024" by (rule uint_drop22_less)
  have g: "0 \<le> uint (drop_bit 22 w)" by simp
  have s: "sint (drop_bit 22 w) = uint (drop_bit 22 w)" using l by (intro sint_small) linarith
  show ?thesis
  proof (cases "uint (drop_bit 22 w) > 127")
    case True
    then show ?thesis using g by (simp add: clamp8_def s uint_drop22 [symmetric])
  next
    case False
    then have "\<not> uint (drop_bit 22 w) < - 127" using g by linarith
    with False show ?thesis by (simp add: clamp8_def s uint_drop22 [symmetric])
  qed
qed

lemma sint_clamp8_neg:
  "sint (clamp8 (- drop_bit 22 (w::u32))) = max (- 127) (- (uint w div 4194304))"
proof -
  have l: "uint (drop_bit 22 w) < 1024" by (rule uint_drop22_less)
  have g: "0 \<le> uint (drop_bit 22 w)" by simp
  have s: "sint (- drop_bit 22 w) = - uint (drop_bit 22 w)"
    using l by (intro sint_neg_small) linarith
  show ?thesis
  proof (cases "uint (drop_bit 22 w) > 127")
    case True
    then show ?thesis by (simp add: clamp8_def s uint_drop22 [symmetric])
  next
    case False
    then have "\<not> 127 < - uint (drop_bit 22 w)" using g by linarith
    with False show ?thesis by (simp add: clamp8_def s uint_drop22 [symmetric])
  qed
qed

lemma sint_clamp8_0: "sint (clamp8 0) = 0"
  by (simp add: clamp8_def)

lemma sint_read8_x:
  "sint (read8_x cl ch ls hs a) =
    (if a > cl then (if a < ch then 0 else min 127 (uint (hs * (a - ch)) div 4194304))
     else max (- 127) (- (uint (ls * (cl - a)) div 4194304)))"
  by (cases "cl < a"; cases "a < ch";
      simp add: read8_x_def sh22 sint_clamp8_pos sint_clamp8_neg sint_clamp8_0)

lemma sint_read8_y:
  "sint (read8_y cl ch ls hs a) =
    (if a > cl then (if a < ch then 0 else max (- 127) (- (uint (hs * (a - ch)) div 4194304)))
     else min 127 (uint (ls * (cl - a)) div 4194304))"
  by (cases "cl < a"; cases "a < ch";
      simp add: read8_y_def sh22 sint_clamp8_pos sint_clamp8_neg sint_clamp8_0)


lemma sh14: "SCALER_FRAC_SHIFT = 14" by (simp add: SCALER_FRAC_SHIFT_def)

lemma sint_clamp16_pos:
  "sint (clamp16 (0x7fff + drop_bit 14 (w::u32))) = min 65535 (32767 + uint w div 16384)"
proof -
  have l: "uint (drop_bit 14 w) < 262144" by (rule uint_drop14_less)
  have g: "0 \<le> uint (drop_bit 14 w)" by simp
  have s: "sint (0x7fff + drop_bit 14 w) = 32767 + uint (drop_bit 14 w)"
    using sint_add_small [of "0x7fff" "drop_bit 14 w"] l by simp
  show ?thesis
  proof (cases "32767 + uint (drop_bit 14 w) > 65535")
    case True
    then show ?thesis using g by (simp add: clamp16_def s uint_drop14 [symmetric])
  next
    case False
    then have "\<not> 32767 + uint (drop_bit 14 w) < 0" using g by linarith
    with False show ?thesis by (simp add: clamp16_def s uint_drop14 [symmetric])
  qed
qed

lemma sint_clamp16_neg:
  "sint (clamp16 (0x7fff - drop_bit 14 (w::u32))) = max 0 (32767 - uint w div 16384)"
proof -
  have l: "uint (drop_bit 14 w) < 262144" by (rule uint_drop14_less)
  have g: "0 \<le> uint (drop_bit 14 w)" by simp
  have s: "sint (0x7fff - drop_bit 14 w) = 32767 - uint (drop_bit 14 w)"
    using sint_sub_small [of "0x7fff" "drop_bit 14 w"] l by simp
  show ?thesis
  proof (cases "32767 - uint (drop_bit 14 w) < 0")
    case True
    then show ?thesis by (simp add: clamp16_def s uint_drop14 [symmetric])
  next
    case False
    then have "\<not> 65535 < 32767 - uint (drop_bit 14 w)" using g by linarith
    with False show ?thesis by (simp add: clamp16_def s uint_drop14 [symmetric])
  qed
qed

lemma sint_clamp16_ctr: "sint (clamp16 0x7fff) = 32767"
  by (simp add: clamp16_def)

lemma sint_read16_x:
  "sint (read16_x cl ch ls hs a) =
    (if a > cl then (if a < ch then 32767 else min 65535 (32767 + uint (hs * (a - ch)) div 16384))
     else max 0 (32767 - uint (ls * (cl - a)) div 16384))"
  by (cases "cl < a"; cases "a < ch";
      simp add: read16_x_def sh14 sint_clamp16_pos sint_clamp16_neg sint_clamp16_ctr)

lemma sint_read16_y:
  "sint (read16_y cl ch ls hs a) =
    (if a > cl then (if a < ch then 32767 else max 0 (32767 - uint (hs * (a - ch)) div 16384))
     else min 65535 (32767 + uint (ls * (cl - a)) div 16384))"
  by (cases "cl < a"; cases "a < ch";
      simp add: read16_y_def sh14 sint_clamp16_pos sint_clamp16_neg sint_clamp16_ctr)

lemma prod_mono:
  fixes s d d' :: u32
  assumes "d \<le> d'" and "uint s * uint d' < 2 ^ 32"
  shows "uint (s * d) \<le> uint (s * d')"
proof -
  have le: "uint d \<le> uint d'" using assms(1) by (simp add: word_le_def)
  have m: "uint s * uint d \<le> uint s * uint d'"
    using le by (intro mult_left_mono) simp_all
  then have "uint s * uint d < 2 ^ 32" using assms(2) by linarith
  then have "uint (s * d) = uint s * uint d"
    using uint_mult_lem [of s d] by simp
  moreover have "uint (s * d') = uint s * uint d'"
    using uint_mult_lem [of s d'] assms(2) by simp
  ultimately show ?thesis using m by simp
qed

lemma uint_sub_le: "c \<le> b \<Longrightarrow> uint (b - c) = uint b - uint (c::u32)"
  using uint_sub_lem [where x = b and y = c] by (simp add: word_le_def)

lemma sub_mono_left:
  fixes a b c :: u32
  assumes "c \<le> a" and "a \<le> b"
  shows "a - c \<le> b - c"
proof -
  have "c \<le> b" using assms by simp
  then show ?thesis using assms by (simp add: word_le_def uint_sub_le)
qed

lemma sub_mono_right:
  fixes a b c :: u32
  assumes "a \<le> b" and "b \<le> c"
  shows "c - b \<le> c - a"
proof -
  have "a \<le> c" using assms by simp
  then show ?thesis using assms by (simp add: word_le_def uint_sub_le)
qed

lemma shape_mono:
  fixes HI LO :: "int \<Rightarrow> int" and C :: int and a b cl ch ls hs :: u32
  assumes ab: "a \<le> b"
    and fa: "mul_fits cl ch ls hs a" and fb: "mul_fits cl ch ls hs b"
    and hi_mono: "\<And>u v. u \<le> v \<Longrightarrow> HI u \<le> HI v" and hi_c: "\<And>u. 0 \<le> u \<Longrightarrow> C \<le> HI u"
    and lo_mono: "\<And>u v. u \<le> v \<Longrightarrow> LO v \<le> LO u" and lo_c: "\<And>u. 0 \<le> u \<Longrightarrow> LO u \<le> C"
  shows "(if a > cl then (if a < ch then C else HI (uint (hs * (a - ch))))
          else LO (uint (ls * (cl - a))))
       \<le> (if b > cl then (if b < ch then C else HI (uint (hs * (b - ch))))
          else LO (uint (ls * (cl - b))))"
proof (cases "cl < a")
  case True
  then have clb: "cl < b" using ab by simp
  show ?thesis
  proof (cases "a < ch")
    case True
    then show ?thesis using \<open>cl < a\<close> clb hi_c [of "uint (hs * (b - ch))"] by simp
  next
    case False
    then have nb: "\<not> b < ch" using ab by simp
    from fb clb nb have f: "uint hs * uint (b - ch) < 2 ^ 32" by (simp add: mul_fits_def)
    have "a - ch \<le> b - ch" using False ab by (intro sub_mono_left) (simp_all add: not_less)
    then have "uint (hs * (a - ch)) \<le> uint (hs * (b - ch))" using f by (rule prod_mono)
    then show ?thesis using \<open>cl < a\<close> clb False nb by (simp add: hi_mono)
  qed
next
  case False
  show ?thesis
  proof (cases "cl < b")
    case True
    have "LO (uint (ls * (cl - a))) \<le> C" by (rule lo_c) simp
    moreover have "C \<le> (if b < ch then C else HI (uint (hs * (b - ch))))"
      using hi_c [of "uint (hs * (b - ch))"] by simp
    ultimately show ?thesis using False True by simp
  next
    case nb: False
    from fa False have f: "uint ls * uint (cl - a) < 2 ^ 32" by (simp add: mul_fits_def)
    have "cl - b \<le> cl - a" using nb ab by (intro sub_mono_right) (simp_all add: not_less)
    then have "uint (ls * (cl - b)) \<le> uint (ls * (cl - a))" using f by (rule prod_mono)
    then show ?thesis using False nb by (simp add: lo_mono)
  qed
qed


lemma shape_anti:
  fixes HI LO :: "int \<Rightarrow> int" and C :: int and a b cl ch ls hs :: u32
  assumes ab: "a \<le> b"
    and fa: "mul_fits cl ch ls hs a" and fb: "mul_fits cl ch ls hs b"
    and hi_mono: "\<And>u v. u \<le> v \<Longrightarrow> HI u \<le> HI v" and hi_c: "\<And>u. 0 \<le> u \<Longrightarrow> C \<le> HI u"
    and lo_mono: "\<And>u v. u \<le> v \<Longrightarrow> LO v \<le> LO u" and lo_c: "\<And>u. 0 \<le> u \<Longrightarrow> LO u \<le> C"
  shows "(if b > cl then (if b < ch then C else LO (uint (hs * (b - ch))))
          else HI (uint (ls * (cl - b))))
       \<le> (if a > cl then (if a < ch then C else LO (uint (hs * (a - ch))))
          else HI (uint (ls * (cl - a))))"
  using shape_mono [OF ab fa fb, of "\<lambda>u. - LO u" "- C" "\<lambda>u. - HI u"]
    hi_mono hi_c lo_mono lo_c
  by (simp split: if_splits)

lemma hi8: "u \<le> v \<Longrightarrow> min 127 (u div 4194304) \<le> min 127 (v div (4194304::int))"
  by (intro min.mono order_refl zdiv_mono1) simp_all

lemma hi8c: "0 \<le> u \<Longrightarrow> 0 \<le> min 127 (u div (4194304::int))"
  by (simp add: pos_imp_zdiv_nonneg_iff)

lemma lo8: "u \<le> v \<Longrightarrow> max (- 127) (- (v div 4194304)) \<le> max (- 127) (- (u div (4194304::int)))"
  by (intro max.mono order_refl) (simp add: zdiv_mono1)

lemma lo8c: "0 \<le> u \<Longrightarrow> max (- 127) (- (u div (4194304::int))) \<le> 0"
  by (simp add: pos_imp_zdiv_nonneg_iff)

lemma hi16: "u \<le> v \<Longrightarrow> min 65535 (32767 + u div 16384) \<le> min 65535 (32767 + v div (16384::int))"
  by (intro min.mono order_refl add_left_mono zdiv_mono1) simp_all

lemma hi16c: "0 \<le> u \<Longrightarrow> 32767 \<le> min 65535 (32767 + u div (16384::int))"
  by (simp add: pos_imp_zdiv_nonneg_iff)

lemma lo16: "u \<le> v \<Longrightarrow> max 0 (32767 - v div 16384) \<le> max 0 (32767 - u div (16384::int))"
  by (intro max.mono order_refl diff_left_mono zdiv_mono1) simp_all

lemma lo16c: "0 \<le> u \<Longrightarrow> max 0 (32767 - u div (16384::int)) \<le> 32767"
  by (simp add: pos_imp_zdiv_nonneg_iff)

lemma read8_x_mono:
  "a \<le> b \<Longrightarrow> mul_fits cl ch ls hs a \<Longrightarrow> mul_fits cl ch ls hs b \<Longrightarrow>
   sint (read8_x cl ch ls hs a) \<le> sint (read8_x cl ch ls hs b)"
  unfolding sint_read8_x by (rule shape_mono) (simp_all add: hi8 hi8c lo8 lo8c)

lemma read16_x_mono:
  "a \<le> b \<Longrightarrow> mul_fits cl ch ls hs a \<Longrightarrow> mul_fits cl ch ls hs b \<Longrightarrow>
   sint (read16_x cl ch ls hs a) \<le> sint (read16_x cl ch ls hs b)"
  unfolding sint_read16_x by (rule shape_mono) (simp_all add: hi16 hi16c lo16 lo16c)

lemma read8_y_anti:
  "a \<le> b \<Longrightarrow> mul_fits cl ch ls hs a \<Longrightarrow> mul_fits cl ch ls hs b \<Longrightarrow>
   sint (read8_y cl ch ls hs b) \<le> sint (read8_y cl ch ls hs a)"
  unfolding sint_read8_y by (rule shape_anti) (simp_all add: hi8 hi8c lo8 lo8c)

lemma read16_y_anti:
  "a \<le> b \<Longrightarrow> mul_fits cl ch ls hs a \<Longrightarrow> mul_fits cl ch ls hs b \<Longrightarrow>
   sint (read16_y cl ch ls hs b) \<le> sint (read16_y cl ch ls hs a)"
  unfolding sint_read16_y by (rule shape_anti) (simp_all add: hi16 hi16c lo16 lo16c)

lemma clamp8_range: "- 127 \<le> sint (clamp8 x) \<and> sint (clamp8 x) \<le> 127"
  by (simp add: clamp8_def)

lemma clamp16_range: "0 \<le> sint (clamp16 x) \<and> sint (clamp16 x) \<le> 65535"
  by (simp add: clamp16_def)

lemma read_ranges:
  "- 127 \<le> sint (read8_x cl ch ls hs a) \<and> sint (read8_x cl ch ls hs a) \<le> 127 \<and>
   - 127 \<le> sint (read8_y cl ch ls hs a) \<and> sint (read8_y cl ch ls hs a) \<le> 127 \<and>
   0 \<le> sint (read16_x cl ch ls hs a) \<and> sint (read16_x cl ch ls hs a) \<le> 65535 \<and>
   0 \<le> sint (read16_y cl ch ls hs a) \<and> sint (read16_y cl ch ls hs a) \<le> 65535"
  unfolding read8_x_def read8_y_def read16_x_def read16_y_def
  using clamp8_range clamp16_range by blast

lemma recalc_stick_same:
  "x_ctr_low (recalc_stick n s) n = x_ctr s n - (if ctr_zones s then x_ctr_deadz s n else 0)"
  "x_ctr_high (recalc_stick n s) n = x_ctr s n + (if ctr_zones s then x_ctr_deadz s n else 0)"
  "y_ctr_low (recalc_stick n s) n = y_ctr s n - (if ctr_zones s then y_ctr_deadz s n else 0)"
  "y_ctr_high (recalc_stick n s) n = y_ctr s n + (if ctr_zones s then y_ctr_deadz s n else 0)"
  "x_low_scaler (recalc_stick n s) n =
     safedivide scaler_dividend (x_low_divisor (recalc_stick n s) n)"
  "x_high_scaler (recalc_stick n s) n =
     safedivide scaler_dividend (x_high_divisor (recalc_stick n s) n)"
  "y_low_scaler (recalc_stick n s) n =
     safedivide scaler_dividend (y_low_divisor (recalc_stick n s) n)"
  "y_high_scaler (recalc_stick n s) n =
     safedivide scaler_dividend (y_high_divisor (recalc_stick n s) n)"
  by (simp_all add: recalc_stick_def Let_def x_low_divisor_def x_high_divisor_def
      y_low_divisor_def y_high_divisor_def end_dz_x_def end_dz_y_def)

lemma recalc_stick_primary:
  "x_min (recalc_stick n s) = x_min s" "x_ctr (recalc_stick n s) = x_ctr s"
  "x_max (recalc_stick n s) = x_max s" "x_ctr_deadz (recalc_stick n s) = x_ctr_deadz s"
  "x_end_deadz (recalc_stick n s) = x_end_deadz s"
  "y_min (recalc_stick n s) = y_min s" "y_ctr (recalc_stick n s) = y_ctr s"
  "y_max (recalc_stick n s) = y_max s" "y_ctr_deadz (recalc_stick n s) = y_ctr_deadz s"
  "y_end_deadz (recalc_stick n s) = y_end_deadz s"
  "ctr_zones (recalc_stick n s) = ctr_zones s" "end_zones (recalc_stick n s) = end_zones s"
  by (simp_all add: recalc_stick_def Let_def)

lemma recalc_stick_other_divisor:
  "m \<noteq> n \<Longrightarrow>
     x_low_divisor (recalc_stick n s) m = x_low_divisor s m \<and>
     x_high_divisor (recalc_stick n s) m = x_high_divisor s m \<and>
     y_low_divisor (recalc_stick n s) m = y_low_divisor s m \<and>
     y_high_divisor (recalc_stick n s) m = y_high_divisor s m"
  by (simp add: recalc_stick_def Let_def x_low_divisor_def x_high_divisor_def
      y_low_divisor_def y_high_divisor_def end_dz_x_def end_dz_y_def)

lemma recalc_coefficients_unfold:
  "recalc_coefficients sticks s =
    (if stick_selected sticks 0
     then recalc_stick 0 (if stick_selected sticks 1 then recalc_stick 1 s else s)
     else (if stick_selected sticks 1 then recalc_stick 1 s else s))"
  by (simp add: recalc_coefficients_def stick_order_def)

lemma recalc_coefficients_scalers:
  assumes "n < NUM_STICKS" and "stick_selected sticks n"
  shows "x_low_scaler (recalc_coefficients sticks s) n =
           safedivide scaler_dividend (x_low_divisor (recalc_coefficients sticks s) n) \<and>
         x_high_scaler (recalc_coefficients sticks s) n =
           safedivide scaler_dividend (x_high_divisor (recalc_coefficients sticks s) n) \<and>
         y_low_scaler (recalc_coefficients sticks s) n =
           safedivide scaler_dividend (y_low_divisor (recalc_coefficients sticks s) n) \<and>
         y_high_scaler (recalc_coefficients sticks s) n =
           safedivide scaler_dividend (y_high_divisor (recalc_coefficients sticks s) n)"
proof -
  from assms(1) have "n = 0 \<or> n = 1"
    by (auto simp: NUM_STICKS_def dest: less_2_cases)
  then consider "n = 0" | "n = 1" by blast
  then show ?thesis
  proof cases
    case 1
    then have "recalc_coefficients sticks s =
        recalc_stick 0 (if stick_selected sticks 1 then recalc_stick 1 s else s)"
      using assms(2) by (simp add: recalc_coefficients_unfold)
    then show ?thesis using 1 by (simp add: recalc_stick_same)
  next
    case 2
    define t where "t = recalc_stick 1 s"
    have r: "recalc_coefficients sticks s = (if stick_selected sticks 0 then recalc_stick 0 t else t)"
      using assms(2) 2 by (simp add: recalc_coefficients_unfold t_def)
    have t: "x_low_scaler t 1 = safedivide scaler_dividend (x_low_divisor t 1)"
      "x_high_scaler t 1 = safedivide scaler_dividend (x_high_divisor t 1)"
      "y_low_scaler t 1 = safedivide scaler_dividend (y_low_divisor t 1)"
      "y_high_scaler t 1 = safedivide scaler_dividend (y_high_divisor t 1)"
      by (simp_all add: t_def recalc_stick_same)
    have o: "(1::nat) \<noteq> 0" by simp
    show ?thesis
      unfolding r 2
      using t recalc_stick_other [OF o, of t] recalc_stick_other_divisor [OF o, of t]
      by simp
  qed
qed

lemma x8_cache: "x8 (cache_x s n raw) n =
    read8_x (x_ctr_low s n) (x_ctr_high s n) (x_low_scaler s n) (x_high_scaler s n) raw"
  by (simp add: x8_def cache_x_def)

lemma x16_cache: "x16 (cache_x s n raw) n =
    read16_x (x_ctr_low s n) (x_ctr_high s n) (x_low_scaler s n) (x_high_scaler s n) raw"
  by (simp add: x16_def cache_x_def)

lemma y8_cache: "y8 (cache_y s n raw) n =
    read8_y (y_ctr_low s n) (y_ctr_high s n) (y_low_scaler s n) (y_high_scaler s n) raw"
  by (simp add: y8_def cache_y_def)

lemma y16_cache: "y16 (cache_y s n raw) n =
    read16_y (y_ctr_low s n) (y_ctr_high s n) (y_low_scaler s n) (y_high_scaler s n) raw"
  by (simp add: y16_def cache_y_def)

lemma state_ranges:
  "- 127 \<le> sint (x8 s n) \<and> sint (x8 s n) \<le> 127 \<and>
   - 127 \<le> sint (y8 s n) \<and> sint (y8 s n) \<le> 127 \<and>
   0 \<le> sint (x16 s n) \<and> sint (x16 s n) \<le> 65535 \<and>
   0 \<le> sint (y16 s n) \<and> sint (y16 s n) \<le> 65535"
  unfolding x8_def y8_def x16_def y16_def using read_ranges by blast

text \<open>
  C1 as amended.  For every state (calibration) and stick, the values \<open>x\<close> and \<open>y\<close> that
  \<open>Joystick_Read\<close> computes lie in \<open>[-127, 127]\<close> for reason code 0 and in \<open>[0, 65535]\<close>
  for reason code 1.  Between two raw timings at which the product of scaler and
  offset fits in 32 bits, the X conversions are non-decreasing in the raw timing and
  the Y conversions are non-increasing.
\<close>

theorem conversions_bounded_and_monotone:
  "(- 127 \<le> sint (x8 s n) \<and> sint (x8 s n) \<le> 127 \<and>
    - 127 \<le> sint (y8 s n) \<and> sint (y8 s n) \<le> 127 \<and>
    0 \<le> sint (x16 s n) \<and> sint (x16 s n) \<le> 65535 \<and>
    0 \<le> sint (y16 s n) \<and> sint (y16 s n) \<le> 65535) \<and>
   (a \<le> b \<and> x_fits s n a \<and> x_fits s n b \<longrightarrow>
      sint (x8 (cache_x s n a) n) \<le> sint (x8 (cache_x s n b) n) \<and>
      sint (x16 (cache_x s n a) n) \<le> sint (x16 (cache_x s n b) n)) \<and>
   (a \<le> b \<and> y_fits s n a \<and> y_fits s n b \<longrightarrow>
      sint (y8 (cache_y s n b) n) \<le> sint (y8 (cache_y s n a) n) \<and>
      sint (y16 (cache_y s n b) n) \<le> sint (y16 (cache_y s n a) n))"
proof (intro conjI impI)
  assume "a \<le> b \<and> x_fits s n a \<and> x_fits s n b"
  then show "sint (x8 (cache_x s n a) n) \<le> sint (x8 (cache_x s n b) n)"
    and "sint (x16 (cache_x s n a) n) \<le> sint (x16 (cache_x s n b) n)"
    by (simp_all add: x8_cache x16_cache x_fits_def read8_x_mono read16_x_mono)
next
  assume "a \<le> b \<and> y_fits s n a \<and> y_fits s n b"
  then show "sint (y8 (cache_y s n b) n) \<le> sint (y8 (cache_y s n a) n)"
    and "sint (y16 (cache_y s n b) n) \<le> sint (y16 (cache_y s n a) n)"
    by (simp_all add: y8_cache y16_cache y_fits_def read8_y_anti read16_y_anti)
qed (use state_ranges [of s n] in simp_all)

lemma sample_calibration_x:
  "x_ctr_low sample_calibration 0 = 128" "x_ctr_high sample_calibration 0 = 128"
  "x_low_scaler sample_calibration 0 = 4194304" "x_high_scaler sample_calibration 0 = 4194304"
  unfolding sample_calibration_def recalc_coefficients_unfold
  by (simp_all add: stick_selected_def STICK_0_def STICK_1_def recalc_stick_same
      recalc_stick_primary x_low_divisor_def x_high_divisor_def end_dz_x_def
      initial_state_def safedivide_def scaler_dividend_def SCALER_FRAC_SHIFT_def)

lemma sample_calibration_y:
  "y_ctr_low sample_calibration 0 = 655" "y_ctr_high sample_calibration 0 = 751"
  "y_low_scaler sample_calibration 0 = 819650" "y_high_scaler sample_calibration 0 = 819650"
  unfolding sample_calibration_def recalc_coefficients_unfold
  by (simp_all add: stick_selected_def STICK_0_def STICK_1_def recalc_stick_same
      recalc_stick_primary y_low_divisor_def y_high_divisor_def end_dz_y_def
      initial_state_def safedivide_def scaler_dividend_def SCALER_FRAC_SHIFT_def)

text \<open>
  The theorem for stick 0 of \<open>sample_calibration\<close> and the raw timings 100 and 200:
  the products fit, X goes from -28 up to 72 (8 bits), Y from 108 down to 88.
\<close>

theorem conversions_bounded_and_monotone_witness:
  "(100 :: u32) \<le> 200 \<and>
   x_fits sample_calibration 0 100 \<and> x_fits sample_calibration 0 200 \<and>
   y_fits sample_calibration 0 100 \<and> y_fits sample_calibration 0 200 \<and>
   sint (x8 (cache_x sample_calibration 0 100) 0) = - 28 \<and>
   sint (x8 (cache_x sample_calibration 0 200) 0) = 72 \<and>
   sint (x8 (cache_x sample_calibration 0 100) 0)
     \<le> sint (x8 (cache_x sample_calibration 0 200) 0) \<and>
   sint (y8 (cache_y sample_calibration 0 100) 0) = 108 \<and>
   sint (y8 (cache_y sample_calibration 0 200) 0) = 88 \<and>
   sint (y8 (cache_y sample_calibration 0 200) 0)
     \<le> sint (y8 (cache_y sample_calibration 0 100) 0)"
proof -
  have f: "x_fits sample_calibration 0 100" "x_fits sample_calibration 0 200"
    "y_fits sample_calibration 0 100" "y_fits sample_calibration 0 200"
    by (simp_all add: x_fits_def y_fits_def mul_fits_def sample_calibration_x
        sample_calibration_y)
  have v: "sint (x8 (cache_x sample_calibration 0 100) 0) = - 28"
    "sint (x8 (cache_x sample_calibration 0 200) 0) = 72"
    "sint (y8 (cache_y sample_calibration 0 100) 0) = 108"
    "sint (y8 (cache_y sample_calibration 0 200) 0) = 88"
    by (simp_all add: x8_cache y8_cache sample_calibration_x sample_calibration_y
        read8_x_def read8_y_def clamp8_def SCALER_FRAC_SHIFT_def)
  have l: "(100 :: u32) \<le> 200" by simp
  from conversions_bounded_and_monotone [of sample_calibration 0 100 200] l f
  have "sint (x8 (cache_x sample_calibration 0 100) 0)
          \<le> sint (x8 (cache_x sample_calibration 0 200) 0)"
    and "sint (y8 (cache_y sample_calibration 0 200) 0)
          \<le> sint (y8 (cache_y sample_calibration 0 100) 0)"
    by blast+
  with l f v show ?thesis by (intro conjI)
qed

text \<open>
  C1 as stated fails twice at stick 0 of \<open>sample_calibration\<close>.  On the Y axis the
  raw timing 751 gives 0 and the greater timing 1406 gives -127: a timing past the
  centre lowers Y.  On the X axis the raw timing 383 gives 127 and the greater timing
  1152 gives 0: the product \<open>2 ^ 22 * 1024\<close> wraps around to 0.
\<close>

theorem conversions_monotone_counterexample:
  "(751 :: u32) \<le> 1406 \<and>
   sint (y8 (cache_y sample_calibration 0 1406) 0)
     < sint (y8 (cache_y sample_calibration 0 751) 0) \<and>
   (383 :: u32) \<le> 1152 \<and>
   sint (x8 (cache_x sample_calibration 0 1152) 0)
     < sint (x8 (cache_x sample_calibration 0 383) 0)"
  by (simp add: x8_cache y8_cache sample_calibration_x sample_calibration_y
      read8_x_def read8_y_def clamp8_def SCALER_FRAC_SHIFT_def)

section \<open>Scalers whose divisor is zero or negative\<close>

lemma safedivide_nonpos: "sint d \<le> 0 \<Longrightarrow> safedivide scaler_dividend d = 0"
proof (cases "d = 0")
  case True
  then show ?thesis by (simp add: safedivide_def)
next
  case False
  assume s: "sint d \<le> 0"
  have big: "2147483648 \<le> uint d"
  proof (rule ccontr)
    assume "\<not> 2147483648 \<le> uint d"
    then have "sint d = uint d" by (intro sint_small) linarith
    with s have "uint d = 0" using uint_ge_0 [of d] by linarith
    with False show False by (simp add: uint_0_iff)
  qed
  have sd: "uint scaler_dividend = 536870912"
    by (simp add: scaler_dividend_def SCALER_FRAC_SHIFT_def)
  have "uint (scaler_dividend div d) = uint scaler_dividend div uint d" by (rule uint_div)
  also have "\<dots> = 0" using big sd by (intro div_pos_pos_trivial) simp_all
  finally have "scaler_dividend div d = 0" by (simp add: uint_0_iff)
  then show ?thesis by (simp add: safedivide_def Let_def)
qed

lemma divisor_exact:
  fixes lo mn ez :: u32
  assumes "uint lo < 1073741824" and "uint mn < 1073741824" and "uint ez < 1073741824"
  shows "sint (lo - (mn + ez)) = uint lo - (uint mn + uint ez)"
proof -
  have "uint mn + uint ez < 2 ^ 32" using assms by simp
  then have e: "uint (mn + ez) = uint mn + uint ez"
    using uint_add_lem [of mn ez] by simp
  have "sint (lo - (mn + ez)) = uint lo - uint (mn + ez)"
    using assms e by (intro sint_sub_small) simp_all
  then show ?thesis by (simp add: e)
qed

lemma zero_low_scaler_x:
  "raw \<le> cl \<Longrightarrow> read8_x cl ch 0 hs raw = 0 \<and> read16_x cl ch 0 hs raw = 0x7fff"
  by (simp add: read8_x_def read16_x_def clamp8_def clamp16_def not_less [symmetric])

lemma zero_high_scaler_x:
  "cl < raw \<Longrightarrow> read8_x cl ch ls 0 raw = 0 \<and> read16_x cl ch ls 0 raw = 0x7fff"
  by (simp add: read8_x_def read16_x_def clamp8_def clamp16_def)

lemma zero_low_scaler_y:
  "raw \<le> cl \<Longrightarrow> read8_y cl ch 0 hs raw = 0 \<and> read16_y cl ch 0 hs raw = 0x7fff"
  by (simp add: read8_y_def read16_y_def clamp8_def clamp16_def not_less [symmetric])

lemma zero_high_scaler_y:
  "cl < raw \<Longrightarrow> read8_y cl ch ls 0 raw = 0 \<and> read16_y cl ch ls 0 raw = 0x7fff"
  by (simp add: read8_y_def read16_y_def clamp8_def clamp16_def)

text \<open>
  C3.  After \<open>recalc_coefficients\<close>, for every stick it selects: a scaler is 0 whenever
  its divisor, read as the signed \<open>int\<close> that the macro \<open>safedivide\<close> tests, is zero or
  negative (the function returns no error: its result is a state).  The side of the
  axis scaled by a zero scaler then converts to the centre value 0 or \<open>0x7fff\<close>, and
  whatever raw timing is cached the conversions stay within \<open>[-127, 127]\<close> and
  \<open>[0, 65535]\<close>.
\<close>

theorem nonpositive_divisor_zero_scaler:
  assumes "n < NUM_STICKS" and "stick_selected sticks n"
    and "s' = recalc_coefficients sticks s"
  shows
    "(sint (x_low_divisor s' n) \<le> 0 \<longrightarrow> x_low_scaler s' n = 0 \<and>
        (\<forall>raw. raw \<le> x_ctr_low s' n \<longrightarrow>
           x8 (cache_x s' n raw) n = 0 \<and> x16 (cache_x s' n raw) n = 0x7fff)) \<and>
     (sint (x_high_divisor s' n) \<le> 0 \<longrightarrow> x_high_scaler s' n = 0 \<and>
        (\<forall>raw. x_ctr_low s' n < raw \<longrightarrow>
           x8 (cache_x s' n raw) n = 0 \<and> x16 (cache_x s' n raw) n = 0x7fff)) \<and>
     (sint (y_low_divisor s' n) \<le> 0 \<longrightarrow> y_low_scaler s' n = 0 \<and>
        (\<forall>raw. raw \<le> y_ctr_low s' n \<longrightarrow>
           y8 (cache_y s' n raw) n = 0 \<and> y16 (cache_y s' n raw) n = 0x7fff)) \<and>
     (sint (y_high_divisor s' n) \<le> 0 \<longrightarrow> y_high_scaler s' n = 0 \<and>
        (\<forall>raw. y_ctr_low s' n < raw \<longrightarrow>
           y8 (cache_y s' n raw) n = 0 \<and> y16 (cache_y s' n raw) n = 0x7fff)) \<and>
     (\<forall>raw. - 127 \<le> sint (x8 (cache_x s' n raw) n) \<and> sint (x8 (cache_x s' n raw) n) \<le> 127 \<and>
            0 \<le> sint (x16 (cache_x s' n raw) n) \<and> sint (x16 (cache_x s' n raw) n) \<le> 65535 \<and>
            - 127 \<le> sint (y8 (cache_y s' n raw) n) \<and> sint (y8 (cache_y s' n raw) n) \<le> 127 \<and>
            0 \<le> sint (y16 (cache_y s' n raw) n) \<and> sint (y16 (cache_y s' n raw) n) \<le> 65535)"
proof -
  note sc = recalc_coefficients_scalers [OF assms(1,2), of s, folded assms(3)]
  have xl: "x_low_scaler s' n = 0" if "sint (x_low_divisor s' n) \<le> 0"
    using sc that by (simp add: safedivide_nonpos)
  have xh: "x_high_scaler s' n = 0" if "sint (x_high_divisor s' n) \<le> 0"
    using sc that by (simp add: safedivide_nonpos)
  have yl: "y_low_scaler s' n = 0" if "sint (y_low_divisor s' n) \<le> 0"
    using sc that by (simp add: safedivide_nonpos)
  have yh: "y_high_scaler s' n = 0" if "sint (y_high_divisor s' n) \<le> 0"
    using sc that by (simp add: safedivide_nonpos)
  show ?thesis
  proof (intro conjI impI allI)
    fix raw
    show "- 127 \<le> sint (x8 (cache_x s' n raw) n)" "sint (x8 (cache_x s' n raw) n) \<le> 127"
      "0 \<le> sint (x16 (cache_x s' n raw) n)" "sint (x16 (cache_x s' n raw) n) \<le> 65535"
      using state_ranges [of "cache_x s' n raw" n] by simp_all
    show "- 127 \<le> sint (y8 (cache_y s' n raw) n)" "sint (y8 (cache_y s' n raw) n) \<le> 127"
      "0 \<le> sint (y16 (cache_y s' n raw) n)" "sint (y16 (cache_y s' n raw) n) \<le> 65535"
      using state_ranges [of "cache_y s' n raw" n] by simp_all
  qed (simp_all add: xl xh yl yh x8_cache x16_cache y8_cache y16_cache
        zero_low_scaler_x zero_high_scaler_x zero_low_scaler_y zero_high_scaler_y)
qed

text \<open>
  The theorem for stick 0 of \<open>inverted_calibration\<close>: the low divisor of X is
  \<open>655 - 800\<close>, negative, and the high divisor of Y is 0; both scalers come out 0
  and a raw timing of 100 on X converts to the centre.
\<close>

theorem nonpositive_divisor_zero_scaler_witness:
  "0 < NUM_STICKS \<and> stick_selected (STICK_0 OR STICK_1) 0 \<and>
   sint (x_low_divisor (recalc_coefficients (STICK_0 OR STICK_1) inverted_calibration) 0) = - 145 \<and>
   x_low_scaler (recalc_coefficients (STICK_0 OR STICK_1) inverted_calibration) 0 = 0 \<and>
   sint (y_high_divisor (recalc_coefficients (STICK_0 OR STICK_1) inverted_calibration) 0) = 0 \<and>
   y_high_scaler (recalc_coefficients (STICK_0 OR STICK_1) inverted_calibration) 0 = 0 \<and>
   x8 (cache_x (recalc_coefficients (STICK_0 OR STICK_1) inverted_calibration) 0 100) 0 = 0 \<and>
   x16 (cache_x (recalc_coefficients (STICK_0 OR STICK_1) inverted_calibration) 0 100) 0 = 0x7fff"
proof -
  define s' where "s' = recalc_coefficients (STICK_0 OR STICK_1) inverted_calibration"
  have n: "0 < NUM_STICKS" by (simp add: NUM_STICKS_def)
  have sel: "stick_selected (STICK_0 OR STICK_1) 0"
    by (simp add: stick_selected_def STICK_0_def STICK_1_def)
  have d: "sint (x_low_divisor s' 0) = - 145" "sint (y_high_divisor s' 0) = 0"
    "x_ctr_low s' 0 = 655"
    unfolding s'_def recalc_coefficients_unfold
    by (simp_all add: stick_selected_def STICK_0_def STICK_1_def recalc_stick_same
        recalc_stick_primary x_low_divisor_def y_high_divisor_def end_dz_x_def end_dz_y_def
        inverted_calibration_def initial_state_def)
  have le: "(100 :: u32) \<le> x_ctr_low s' 0" by (simp add: d)
  from nonpositive_divisor_zero_scaler [OF n sel s'_def] d le
  have "x_low_scaler s' 0 = 0" "y_high_scaler s' 0 = 0"
    "x8 (cache_x s' 0 100) 0 = 0" "x16 (cache_x s' 0 100) 0 = 0x7fff"
    by simp_all
  with n sel d show ?thesis unfolding s'_def by (intro conjI)
qed

section \<open>The scenario of the specification\<close>

lemma m8: "(0xff :: u32) = mask 8" by (simp add: mask_eq_exp_minus_1)
lemma m16: "(0xffff :: u32) = mask 16" by (simp add: mask_eq_exp_minus_1)

lemma fire_buttons_low16: "n < 16 \<Longrightarrow> \<not> bit (fire_buttons joy sn 16) n"
  unfolding fire_buttons_def Let_def
  by (auto simp add: bit_simps simp del: push_bit_of_1)

lemma x8_field:
  "ucast (drop_bit 8 (push_bit 8 x) AND 255 OR drop_bit 8 (fire_buttons joy sn 16))
     = (ucast (x :: u32) :: u8)"
  unfolding m8
  by (rule bit_word_eqI) (auto simp: bit_simps fire_buttons_low16)

lemma x16_field:
  "ucast (drop_bit 16 (push_bit 16 x)) = (ucast (x :: u32) :: 16 word)"
  by (rule bit_word_eqI) (auto simp: bit_simps)

lemma x8_frame [simp]: "x8 (s\<lparr>swi_in_last_min := b\<rparr>) n = x8 s n"
  by (simp add: x8_def)

lemma x16_frame [simp]: "x16 (s\<lparr>swi_in_last_min := b\<rparr>) n = x16 s n"
  by (simp add: x16_def)

lemma read_reply_8:
  "r 0 = 0 \<Longrightarrow> \<exists>r' e'. read_reply r s e = (None, r', s, e') \<and> reply_x8 r' = ucast (x8 s 0)"
  by (simp add: read_reply_def Let_def NUM_STICKS_def reply_x8_def x8_field
      split: prod.splits)

lemma read_reply_16:
  "r 0 = 0x100 \<Longrightarrow> \<exists>r' e'. read_reply r s e = (None, r', s, e') \<and> reply_x16 r' = ucast (x16 s 0)"
  by (simp add: read_reply_def Let_def NUM_STICKS_def reply_x16_def x16_field
      split: prod.splits)

lemma read_x8_polling:
  "calib_status s = CALIB_NONE \<Longrightarrow> polling_stick s \<Longrightarrow>
   read_x8 0 s e = Some (None, ucast (x8 s 0))"
  using read_reply_8 [of "(\<lambda>_. 0)(0 := 0)" "s\<lparr>swi_in_last_min := True\<rparr>" e]
  by (auto simp add: read_x8_def swihandler_read swi_read_def Let_def)

lemma read_x16_polling:
  "calib_status s = CALIB_NONE \<Longrightarrow> polling_stick s \<Longrightarrow>
   read_x16 0 s e = Some (None, ucast (x16 s 0))"
  using read_reply_16 [of "(\<lambda>_. 0)(0 := 0x100)" "s\<lparr>swi_in_last_min := True\<rparr>" e]
  by (auto simp add: read_x16_def swihandler_read swi_read_def Let_def)


lemma eval_expr_vals:
  "eval_expr (0, 0, 0, 0, 0) = 0" "eval_expr (0, 0xBF, 0x02, 0, 0) = 703"
  "eval_expr (0, 0x7E, 0x05, 0, 0) = 1406" "eval_expr (0, 48, 0, 0, 0) = 48"
  by (simp_all add: eval_expr_def)

lemma scenario_ready:
  "calib_status (scenario s raw) = CALIB_NONE" "polling_stick (scenario s raw)"
  by (simp_all add: scenario_def Let_def)

lemma conv_vals:
  "read8_x 655 751 819650 819650 703 = 0" "read8_x 703 703 763685 763685 703 = 0"
  "read8_x 655 751 819650 819650 0 = - 127" "read8_x 703 703 763685 763685 0 = - 127"
  "read8_x 655 751 819650 819650 1406 = 127" "read8_x 703 703 763685 763685 1406 = 127"
  "read16_x 655 751 819650 819650 703 = 0x7fff" "read16_x 703 703 763685 763685 703 = 0x7fff"
  "read16_x 655 751 819650 819650 0 = 0" "read16_x 703 703 763685 763685 0 = 0"
  "read16_x 655 751 819650 819650 1406 = 0xFFFE" "read16_x 703 703 763685 763685 1406 = 0xFFFE"
  by (simp_all add: read8_x_def read16_x_def clamp8_def clamp16_def SCALER_FRAC_SHIFT_def)


lemma calib_scenario:
  "snd (JoystickCalib (Inr scenario_calib) s) =
     recalc_coefficients 1
       (s\<lparr>x_min := (x_min s)(0 := 0), x_ctr := (x_ctr s)(0 := 703),
          x_max := (x_max s)(0 := 1406), x_ctr_deadz := (x_ctr_deadz s)(0 := 48),
          x_end_deadz := (x_end_deadz s)(0 := 0)\<rparr>)"
  by (simp add: scenario_calib_def JoystickCalib_def Let_def eval_expr_vals
      NUM_STICKS_def)

lemma recalc_stick0_x:
  "x_ctr_low (recalc_coefficients 1 s) 0 = x_ctr s 0 - (if ctr_zones s then x_ctr_deadz s 0 else 0) \<and>
   x_ctr_high (recalc_coefficients 1 s) 0 = x_ctr s 0 + (if ctr_zones s then x_ctr_deadz s 0 else 0) \<and>
   x_low_scaler (recalc_coefficients 1 s) 0 =
     safedivide scaler_dividend
       (x_ctr s 0 - (if ctr_zones s then x_ctr_deadz s 0 else 0)
         - (x_min s 0 + (if end_zones s then x_end_deadz s 0 else 0))) \<and>
   x_high_scaler (recalc_coefficients 1 s) 0 =
     safedivide scaler_dividend
       ((x_max s 0 - (if end_zones s then x_end_deadz s 0 else 0))
         - (x_ctr s 0 + (if ctr_zones s then x_ctr_deadz s 0 else 0)))"
  by (simp add: recalc_coefficients_def stick_order_def stick_selected_def
      recalc_stick_def Let_def)


lemma scenario_x8:
  "x8 (scenario s raw) 0 =
    (if ctr_zones s then read8_x 655 751 819650 819650 raw
     else read8_x 703 703 763685 763685 raw)"
  by (simp add: scenario_def calib_scenario recalc_stick0_x Let_def x8_def
      safedivide_def scaler_dividend_def SCALER_FRAC_SHIFT_def)


lemma scenario_x16:
  "x16 (scenario s raw) 0 =
    (if ctr_zones s then read16_x 655 751 819650 819650 raw
     else read16_x 703 703 763685 763685 raw)"
  by (simp add: scenario_def calib_scenario recalc_stick0_x Let_def x16_def
      safedivide_def scaler_dividend_def SCALER_FRAC_SHIFT_def)

text \<open>
  C2 as amended.  In the scenario, whatever the rest of the state and the environment,
  both reads of stick 0 succeed, and the X output is: for raw 703, 0 (8-bit) and
  \<open>0x7fff\<close> (16-bit); for raw 0, -127 and \<open>0x0000\<close>; for raw 1406, 127 and
  \<open>0xFFFE\<close>.
\<close>

theorem scenario_reads:
  "read_x8 0 (scenario s 703) e = Some (None, 0) \<and>
   read_x16 0 (scenario s 703) e = Some (None, 0x7fff) \<and>
   read_x8 0 (scenario s 0) e = Some (None, - 127) \<and>
   read_x16 0 (scenario s 0) e = Some (None, 0) \<and>
   read_x8 0 (scenario s 1406) e = Some (None, 127) \<and>
   read_x16 0 (scenario s 1406) e = Some (None, 0xFFFE)"
  by (simp add: read_x8_polling read_x16_polling scenario_ready scenario_x8 scenario_x16
      conv_vals)

text \<open>
  C2 as stated fails in its last value: at raw 1406 the 16-bit X output is not
  \<open>0xFFFF\<close>.  The scaler is the truncated quotient \<open>2 ^ 29 div 655 = 819650\<close>, and
  \<open>819650 * 655\<close> shifted right by 14 is 32767, one short of 32768.
\<close>

theorem scenario_max_counterexample:
  "read_x16 0 (scenario initial_state 1406) sample_env \<noteq> Some (None, 0xFFFF)"
  by (simp add: read_x16_polling scenario_ready scenario_x16 conv_vals)

section \<open>An acquisition cycle and the cached values\<close>

lemma and_not_other:
  fixes m b b' :: u32
  assumes "b AND b' = 0"
  shows "(m AND NOT b') AND b = m AND b"
proof (rule bit_word_eqI)
  fix k
  assume "k < LENGTH(32)"
  have "bit (b AND b') k = bit (0::u32) k" using assms by simp
  then have "\<not> (bit b k \<and> bit b' k)" by (simp add: bit_and_iff)
  then show "bit ((m AND NOT b') AND b) k = bit (m AND b) k"
    using \<open>k < LENGTH(32)\<close> by (auto simp: bit_simps)
qed

lemma and_not_same: "(m AND NOT b) AND b = (0::u32)"
  by (rule bit_eqI) (auto simp: bit_simps)

lemma rj_axis_mask_other:
  "b AND b' = 0 \<Longrightarrow> rj_mask (rj_axis s joy interval b' ix' n' lp) AND b = rj_mask lp AND b"
  by (simp add: rj_axis_def Let_def and_not_other)

lemma rj_axis_mask_same:
  "rj_mask (rj_axis s joy interval b ix n lp) AND b =
     (if joy AND b \<noteq> 0 then 0 else rj_mask lp AND b)"
  by (simp add: rj_axis_def Let_def and_not_same)

lemma rj_axis_new_other:
  "ix' \<noteq> ix \<or> n' \<noteq> n \<Longrightarrow>
   axis_new ix n (rj_axis s joy interval b' ix' n' lp) = axis_new ix n lp"
  by (auto simp: rj_axis_def Let_def axis_new_def)

lemma rj_axis_new_same:
  "axis_new ix n (rj_axis s joy interval b ix n lp) =
     (if joy AND b \<noteq> 0 \<and> interval \<le> tolerance s then rj_wait lp else axis_new ix n lp)"
  by (auto simp: rj_axis_def Let_def axis_new_def)

lemma rj_axis_wait: "rj_wait (rj_axis s joy interval b ix n lp) = rj_wait lp"
  by (simp add: rj_axis_def Let_def)

lemma bits_disjoint:
  "PC_JOY_A_X AND PC_JOY_A_Y = 0" "PC_JOY_A_X AND PC_JOY_B_X = 0" "PC_JOY_A_X AND PC_JOY_B_Y = 0"
  "PC_JOY_A_Y AND PC_JOY_A_X = 0" "PC_JOY_A_Y AND PC_JOY_B_X = 0" "PC_JOY_A_Y AND PC_JOY_B_Y = 0"
  "PC_JOY_B_X AND PC_JOY_A_X = 0" "PC_JOY_B_X AND PC_JOY_A_Y = 0" "PC_JOY_B_X AND PC_JOY_B_Y = 0"
  "PC_JOY_B_Y AND PC_JOY_A_X = 0" "PC_JOY_B_Y AND PC_JOY_A_Y = 0" "PC_JOY_B_Y AND PC_JOY_B_X = 0"
  by (simp_all add: PC_JOY_A_X_def PC_JOY_A_Y_def PC_JOY_B_X_def PC_JOY_B_Y_def)


lemma rj_sample_fields:
  "rj_mask (snd (snd (rj_sample lp))) = rj_mask lp"
  "rj_new_x (snd (snd (rj_sample lp))) = rj_new_x lp"
  "rj_new_y (snd (snd (rj_sample lp))) = rj_new_y lp"
  by (simp_all add: rj_sample_def Let_def split: prod.splits)

lemma rj_sample_joy: "fst (rj_sample lp) AND b \<noteq> 0 \<Longrightarrow> rj_mask lp AND b \<noteq> 0"
proof -
  assume a: "fst (rj_sample lp) AND b \<noteq> 0"
  have j: "fst (rj_sample lp) = NOT (ucast (fst (read_port (rj_env lp)))) AND rj_mask lp"
    by (simp add: rj_sample_def Let_def split: prod.splits)
  show ?thesis
  proof
    assume "rj_mask lp AND b = 0"
    then have "(NOT (ucast (fst (read_port (rj_env lp)))) AND rj_mask lp) AND b = 0"
      by (simp add: and.assoc)
    with a j show False by simp
  qed
qed

lemma rj_step_unfold:
  "rj_step s lp =
     rj_axis s (fst (rj_sample lp)) (fst (snd (rj_sample lp))) PC_JOY_B_Y False 1
       (rj_axis s (fst (rj_sample lp)) (fst (snd (rj_sample lp))) PC_JOY_B_X True 1
         (rj_axis s (fst (rj_sample lp)) (fst (snd (rj_sample lp))) PC_JOY_A_Y False 0
           (rj_axis s (fst (rj_sample lp)) (fst (snd (rj_sample lp))) PC_JOY_A_X True 0
              (snd (snd (rj_sample lp))))))"
  by (simp add: rj_step_def split: prod.splits)

lemma rj_step_mask:
  assumes "n < NUM_STICKS"
  shows "rj_mask (rj_step s lp) AND axis_bit ix n =
           (if completes lp (axis_bit ix n) then 0 else rj_mask lp AND axis_bit ix n)"
proof -
  from assms have "n = 0 \<or> n = 1" by (auto simp: NUM_STICKS_def dest: less_2_cases)
  then show ?thesis
    by (cases ix)
      (auto simp: rj_step_unfold axis_bit_def completes_def rj_axis_mask_other
        rj_axis_mask_same bits_disjoint rj_sample_fields)
qed

lemma rj_step_new:
  assumes "n < NUM_STICKS"
  shows "axis_new ix n (rj_step s lp) =
           (if accepted s lp (axis_bit ix n) then rj_wait (snd (snd (rj_sample lp)))
            else axis_new ix n lp)"
proof -
  from assms have "n = 0 \<or> n = 1" by (auto simp: NUM_STICKS_def dest: less_2_cases)
  then show ?thesis
    apply (cases ix)
     apply (auto simp: rj_step_unfold axis_bit_def accepted_def completes_def
        rj_axis_new_other rj_axis_new_same rj_axis_wait)
           apply (simp_all add: axis_new_def rj_sample_fields)
    done
qed


lemma rj_run_0: "rj_run s m e 0 = rj_init m e"
  by (simp add: rj_run_def)

lemma rj_run_Suc: "rj_run s m e (Suc j) = rj_step s (rj_run s m e j)"
  by (simp add: rj_run_def)

lemma rj_init_new: "axis_new ix n (rj_init m e) = UINT_MAX"
  by (simp add: rj_init_def axis_new_def split: prod.splits)

lemma rj_invariant:
  assumes n: "n < NUM_STICKS"
  shows "(rj_mask (rj_run s m e j) AND axis_bit ix n \<noteq> 0 \<longrightarrow>
            axis_new ix n (rj_run s m e j) = UINT_MAX) \<and>
         (axis_new ix n (rj_run s m e j) \<noteq> UINT_MAX \<longrightarrow>
            (\<exists>i<j. accepted s (rj_run s m e i) (axis_bit ix n))) \<and>
         ((\<exists>i<j. completes (rj_run s m e i) (axis_bit ix n)) \<longrightarrow>
            rj_mask (rj_run s m e j) AND axis_bit ix n = 0)"
proof (induction j)
  case 0
  show ?case by (simp add: rj_run_0 rj_init_new)
next
  case (Suc j)
  let ?lp = "rj_run s m e j" and ?b = "axis_bit ix n"
  note mk = rj_step_mask [OF n, of s ?lp ix] and nw = rj_step_new [OF n, of ix s ?lp]
  have c: "completes ?lp ?b \<Longrightarrow> rj_mask ?lp AND ?b \<noteq> 0"
    unfolding completes_def by (rule rj_sample_joy)
  have a: "accepted s ?lp ?b \<Longrightarrow> completes ?lp ?b" by (simp add: accepted_def)
  show ?case
  proof (intro conjI impI)
    assume "rj_mask (rj_run s m e (Suc j)) AND ?b \<noteq> 0"
    then have "\<not> completes ?lp ?b" and "rj_mask ?lp AND ?b \<noteq> 0"
      using mk by (auto simp: rj_run_Suc split: if_splits)
    then show "axis_new ix n (rj_run s m e (Suc j)) = UINT_MAX"
      using Suc.IH nw a by (auto simp: rj_run_Suc)
  next
    assume h: "axis_new ix n (rj_run s m e (Suc j)) \<noteq> UINT_MAX"
    show "\<exists>i<Suc j. accepted s (rj_run s m e i) ?b"
    proof (cases "accepted s ?lp ?b")
      case True
      then show ?thesis by blast
    next
      case False
      then have "axis_new ix n ?lp \<noteq> UINT_MAX" using h nw by (simp add: rj_run_Suc)
      then obtain i where "i < j" "accepted s (rj_run s m e i) ?b" using Suc.IH by blast
      then show ?thesis using less_SucI by blast
    qed
  next
    assume "\<exists>i<Suc j. completes (rj_run s m e i) ?b"
    then obtain i where i: "i < Suc j" "completes (rj_run s m e i) ?b" by blast
    show "rj_mask (rj_run s m e (Suc j)) AND ?b = 0"
    proof (cases "completes ?lp ?b")
      case True
      then show ?thesis using mk by (simp add: rj_run_Suc)
    next
      case False
      with i have "i < j" by (metis less_Suc_eq)
      then have "rj_mask ?lp AND ?b = 0" using i Suc.IH by blast
      then show ?thesis using mk False by (simp add: rj_run_Suc)
    qed
  qed
qed


lemma while_option_passes:
  assumes "while_option b c s = Some t"
  obtains k where "t = (c ^^ k) s" and "\<not> b ((c ^^ k) s)" and "\<forall>j<k. b ((c ^^ j) s)"
proof -
  from assms have ex: "\<exists>k. \<not> b ((c ^^ k) s)"
    and t: "t = (c ^^ (LEAST k. \<not> b ((c ^^ k) s))) s"
    by (auto simp: while_option_def split: if_splits)
  define k where "k = (LEAST k. \<not> b ((c ^^ k) s))"
  have "\<not> b ((c ^^ k) s)" unfolding k_def using ex by (rule LeastI_ex)
  moreover have "\<forall>j<k. b ((c ^^ j) s)"
    unfolding k_def using not_less_Least by blast
  ultimately show ?thesis using t that by (simp add: k_def)
qed

lemma rj_store_unchanged:
  assumes "n < NUM_STICKS"
    and "axis_cache ix (fold (rj_store_stick nx ny) stick_order s) n \<noteq> axis_cache ix s n"
  shows "(if ix then nx n else ny n) \<noteq> UINT_MAX"
proof -
  from assms(1) have "n = 0 \<or> n = 1" by (auto simp: NUM_STICKS_def dest: less_2_cases)
  then show ?thesis
    using assms(2)
    by (auto simp: stick_order_def rj_store_stick_def Let_def axis_cache_def
        split: if_splits)
qed

lemma discarded_not_accepted:
  assumes n: "n < NUM_STICKS"
    and d: "discarded s (rj_run s m e i) (axis_bit ix n)"
  shows "\<not> accepted s (rj_run s m e i') (axis_bit ix n)"
proof
  assume a: "accepted s (rj_run s m e i') (axis_bit ix n)"
  let ?b = "axis_bit ix n"
  have ci: "completes (rj_run s m e i) ?b" using d by (simp add: discarded_def)
  have ci': "completes (rj_run s m e i') ?b" using a by (simp add: accepted_def)
  have ne: "i \<noteq> i'" using a d by (auto simp: accepted_def discarded_def)
  have later: "rj_mask (rj_run s m e q) AND ?b = 0"
    if "p < q" "completes (rj_run s m e p) ?b" for p q
    using rj_invariant [OF n, of s m e q ix] that by blast
  have gone: "\<not> completes (rj_run s m e q) ?b" if "rj_mask (rj_run s m e q) AND ?b = 0" for q
    using that rj_sample_joy [of "rj_run s m e q" ?b] by (auto simp: completes_def)
  from ne consider "i < i'" | "i' < i" by (metis nat_neq_iff)
  then show False
  proof cases
    case 1
    then show False using later [OF 1 ci] gone ci' by blast
  next
    case 2
    then show False using later [OF 2 ci'] gone ci by blast
  qed
qed

text \<open>
  C9.  Let a call of \<open>read_joystick\<close> return after \<open>k\<close> passes of its timing loop (the
  call has no error result; it returns the axes that timed out).  For either axis of
  either stick: if the cached value is not what it was before the call, then in some
  pass the axis registered completion with an interval within the tolerance; hence
  the cached value is as before when the axis' reading was discarded in some pass,
  when the axis never registered completion, and when its bit is among the axes
  returned as timed out.
\<close>

theorem timed_out_or_discarded_axis_keeps_cache:
  assumes rj: "read_joystick mask_arg s e = Some (rmask, lost, s', e')"
    and n: "n < NUM_STICKS"
  shows "\<exists>k. (\<forall>j<k. rj_cond s (rj_run s mask_arg e j)) \<and>
             \<not> rj_cond s (rj_run s mask_arg e k) \<and>
             rmask = rj_mask (rj_run s mask_arg e k) \<and>
             (axis_cache is_x s' n \<noteq> axis_cache is_x s n \<longrightarrow>
                (\<exists>j<k. accepted s (rj_run s mask_arg e j) (axis_bit is_x n))) \<and>
             ((\<exists>j<k. discarded s (rj_run s mask_arg e j) (axis_bit is_x n)) \<longrightarrow>
                axis_cache is_x s' n = axis_cache is_x s n) \<and>
             ((\<forall>j<k. \<not> completes (rj_run s mask_arg e j) (axis_bit is_x n)) \<longrightarrow>
                axis_cache is_x s' n = axis_cache is_x s n) \<and>
             (rmask AND axis_bit is_x n \<noteq> 0 \<longrightarrow>
                axis_cache is_x s' n = axis_cache is_x s n)"
proof -
  let ?b = "axis_bit is_x n"
  from rj obtain lp where w: "while_option (rj_cond s) (rj_step s) (rj_init mask_arg e) = Some lp"
    and rm: "rmask = rj_mask lp"
    and s': "s' = fold (rj_store_stick (rj_new_x lp) (rj_new_y lp)) stick_order s"
    by (auto simp: read_joystick_def split: option.splits)
  from w obtain k where lp: "lp = rj_run s mask_arg e k"
    and stop: "\<not> rj_cond s (rj_run s mask_arg e k)"
    and go: "\<forall>j<k. rj_cond s (rj_run s mask_arg e j)"
    unfolding rj_run_def by (rule while_option_passes)
  note inv = rj_invariant [OF n, of s mask_arg e k is_x]
  have changed: "axis_new is_x n lp \<noteq> UINT_MAX"
    if "axis_cache is_x s' n \<noteq> axis_cache is_x s n"
    using rj_store_unchanged [OF n, of is_x "rj_new_x lp" "rj_new_y lp" s] that
    by (simp add: s' axis_new_def)
  have acc: "\<exists>j<k. accepted s (rj_run s mask_arg e j) ?b"
    if "axis_cache is_x s' n \<noteq> axis_cache is_x s n"
    using changed [OF that] inv by (simp add: lp)
  have dis: "axis_cache is_x s' n = axis_cache is_x s n"
    if "\<exists>j<k. discarded s (rj_run s mask_arg e j) ?b"
  proof (rule ccontr)
    assume "axis_cache is_x s' n \<noteq> axis_cache is_x s n"
    from acc [OF this] that discarded_not_accepted [OF n] show False by blast
  qed
  have nev: "axis_cache is_x s' n = axis_cache is_x s n"
    if "\<forall>j<k. \<not> completes (rj_run s mask_arg e j) ?b"
  proof (rule ccontr)
    assume "axis_cache is_x s' n \<noteq> axis_cache is_x s n"
    from acc [OF this] that show False by (auto simp: accepted_def)
  qed
  have out: "axis_cache is_x s' n = axis_cache is_x s n" if "rmask AND ?b \<noteq> 0"
  proof (rule ccontr)
    assume "axis_cache is_x s' n \<noteq> axis_cache is_x s n"
    from changed [OF this] inv that show False by (simp add: rm lp)
  qed
  from go stop rm lp acc dis nev out show ?thesis by blast
qed

text \<open>
  The theorem for the Y axis of stick 0 in the cycle of \<open>busy_env\<close>: the call returns
  after three passes with the axes of stick B timed out and stick A marked lost; only
  the cached X value of stick A has changed.
\<close>

theorem timed_out_or_discarded_axis_keeps_cache_witness:
  "read_joystick 0xf slow_state busy_env =
     Some (0xc, 1, slow_state\<lparr>x_axis := (x_axis slow_state)(0 := 20)\<rparr>,
           busy_env\<lparr>port_pos := 3, timer_pos := 4\<rparr>) \<and>
   (0::nat) < NUM_STICKS \<and>
   discarded slow_state (rj_run slow_state 0xf busy_env 1) (axis_bit False 0) \<and>
   (\<exists>k. (\<forall>j<k. rj_cond slow_state (rj_run slow_state 0xf busy_env j)) \<and>
        \<not> rj_cond slow_state (rj_run slow_state 0xf busy_env k) \<and>
        (0xc :: u32) = rj_mask (rj_run slow_state 0xf busy_env k) \<and>
        ((\<exists>j<k. discarded slow_state (rj_run slow_state 0xf busy_env j) (axis_bit False 0)) \<longrightarrow>
           axis_cache False (slow_state\<lparr>x_axis := (x_axis slow_state)(0 := 20)\<rparr>) 0 =
           axis_cache False slow_state 0))"
proof -
  have r: "read_joystick 0xf slow_state busy_env =
     Some (0xc, 1, slow_state\<lparr>x_axis := (x_axis slow_state)(0 := 20)\<rparr>,
           busy_env\<lparr>port_pos := 3, timer_pos := 4\<rparr>)"
    by (simp add: read_joystick_def rj_init_def rj_cond_def rj_step_def rj_sample_def
        rj_axis_def rj_store_stick_def read_timer_def read_port_def stick_order_def
        UINT_MAX_def PC_JOY_A_X_def PC_JOY_A_Y_def PC_JOY_B_X_def PC_JOY_B_Y_def
        while_option_unfold Let_def initial_state_def slow_state_def busy_env_def
        MAX_GRANULARITY_def)
  have n: "(0::nat) < NUM_STICKS" by (simp add: NUM_STICKS_def)
  have d: "discarded slow_state (rj_run slow_state 0xf busy_env 1) (axis_bit False 0)"
    by (simp add: discarded_def completes_def rj_run_def axis_bit_def
        rj_init_def rj_step_def rj_sample_def
        rj_axis_def read_timer_def read_port_def
        PC_JOY_A_X_def PC_JOY_A_Y_def PC_JOY_B_X_def PC_JOY_B_Y_def
        Let_def initial_state_def slow_state_def busy_env_def MAX_GRANULARITY_def)
  from timed_out_or_discarded_axis_keeps_cache [OF r n, of False]
  obtain k where "\<forall>j<k. rj_cond slow_state (rj_run slow_state 0xf busy_env j)"
    "\<not> rj_cond slow_state (rj_run slow_state 0xf busy_env k)"
    "(0xc :: u32) = rj_mask (rj_run slow_state 0xf busy_env k)"
    "(\<exists>j<k. discarded slow_state (rj_run slow_state 0xf busy_env j) (axis_bit False 0)) \<longrightarrow>
       axis_cache False (slow_state\<lparr>x_axis := (x_axis slow_state)(0 := 20)\<rparr>) 0 =
       axis_cache False slow_state 0"
    by blast
  then have "\<exists>k. (\<forall>j<k. rj_cond slow_state (rj_run slow_state 0xf busy_env j)) \<and>
        \<not> rj_cond slow_state (rj_run slow_state 0xf busy_env k) \<and>
        (0xc :: u32) = rj_mask (rj_run slow_state 0xf busy_env k) \<and>
        ((\<exists>j<k. discarded slow_state (rj_run slow_state 0xf busy_env j) (axis_bit False 0)) \<longrightarrow>
           axis_cache False (slow_state\<lparr>x_axis := (x_axis slow_state)(0 := 20)\<rparr>) 0 =
           axis_cache False slow_state 0)"
    by blast
  with r n d show ?thesis by (intro conjI)
qed

end
